(* ===== verification/Prelude.thy ===== *)
theory Prelude
  imports Main
begin

text \<open>
  Shared vocabulary of the development: the JavaScript values the facade in
  \<^verbatim>\<open>src/index.js\<close> reads and writes (responses of the REST client, option
  objects, cache entries), JavaScript truthiness (the \<^verbatim>\<open>||\<close> defaults of the
  constructor, the \<^verbatim>\<open>if (!value) continue\<close> of \<^verbatim>\<open>_encode\<close>, the
  \<^verbatim>\<open>if (this.GuildCache[guildId])\<close> test), \<^verbatim>\<open>String(v)\<close> conversion (template
  literals, property keys), property reads that throw on \<^verbatim>\<open>null\<close> and
  \<^verbatim>\<open>undefined\<close>, and \<^verbatim>\<open>for ... of\<close> iteration. Numbers are modelled as
  \<open>int\<close> (the program only handles millisecond counts and ids, exact as
  doubles below \<open>2^53\<close>) plus \<open>NaN\<close>.
\<close>

named_theorems js_simps "evaluation rules of the JavaScript value model"

type_synonym timestamp = int

datatype jv =
    JUndefined
  | JNull
  | JBool bool
  | JNum int
  | JNaN
  | JStr string
  | JArr "jv list"
  | JObj "(string \<times> jv) list"

text \<open>Exceptions a call can end with: raised by the runtime (\<open>SyntaxError\<close> by
  \<^verbatim>\<open>eval\<close>, \<open>ReferenceError\<close> by a call of an undefined global) or by the REST
  client.\<close>

datatype js_error =
    TypeError
  | RangeError
  | SyntaxError
  | ReferenceError
  | HTTPError nat
  | RequestTimeout
  | NetworkError

subsection \<open>Truthiness and the \<open>||\<close> operator\<close>

fun truthy :: "jv \<Rightarrow> bool" where
  "truthy JUndefined = False"
| "truthy JNull = False"
| "truthy (JBool b) = b"
| "truthy (JNum n) = (n \<noteq> 0)"
| "truthy JNaN = False"
| "truthy (JStr s) = (s \<noteq> [])"
| "truthy (JArr _) = True"
| "truthy (JObj _) = True"

definition js_or :: "jv \<Rightarrow> jv \<Rightarrow> jv" where
  "js_or a b = (if truthy a then a else b)"

subsection \<open>\<open>String(v)\<close>\<close>

fun digits_of_nat :: "nat \<Rightarrow> string" where
  "digits_of_nat n =
     (if n < 10 then [''0123456789'' ! n]
      else digits_of_nat (n div 10) @ [''0123456789'' ! (n mod 10)])"

definition decimal :: "int \<Rightarrow> string" where
  "decimal i = (if i < 0 then CHR ''-'' # digits_of_nat (nat (- i)) else digits_of_nat (nat i))"

text \<open>\<open>Array.prototype.join(sep)\<close> on strings.\<close>

fun join_sep :: "char \<Rightarrow> string list \<Rightarrow> string" where
  "join_sep c [] = []"
| "join_sep c [s] = s"
| "join_sep c (s # ss) = s @ c # join_sep c ss"

text \<open>\<open>Array.prototype.toString\<close> writes \<open>null\<close> and \<open>undefined\<close> elements as empty.\<close>

fun js_to_string :: "jv \<Rightarrow> string" where
  "js_to_string JUndefined = ''undefined''"
| "js_to_string JNull = ''null''"
| "js_to_string (JBool b) = (if b then ''true'' else ''false'')"
| "js_to_string (JNum n) = decimal n"
| "js_to_string JNaN = ''NaN''"
| "js_to_string (JStr s) = s"
| "js_to_string (JArr xs) =
     join_sep CHR '','' (map (\<lambda>x. if x = JUndefined \<or> x = JNull then [] else js_to_string x) xs)"
| "js_to_string (JObj _) = ''[object Object]''"

subsection \<open>Property reads and iteration\<close>

text \<open>
  \<open>v.k\<close> for a key that names no inherited property: \<open>TypeError\<close> on
  \<open>null\<close> and \<open>undefined\<close>, the field of an object (the last one written,
  as \<^verbatim>\<open>JSON.parse\<close> keeps it, is the first of our list, which holds no
  duplicates), and \<open>undefined\<close> otherwise.
\<close>

definition nullish :: "jv \<Rightarrow> bool" where
  "nullish v \<longleftrightarrow> v = JUndefined \<or> v = JNull"

fun prop_of :: "jv \<Rightarrow> string \<Rightarrow> jv" where
  "prop_of (JObj fs) k = (case map_of fs k of Some v \<Rightarrow> v | None \<Rightarrow> JUndefined)"
| "prop_of v k = JUndefined"

definition get_prop :: "jv \<Rightarrow> string \<Rightarrow> js_error + jv" where
  "get_prop v k = (if nullish v then Inl TypeError else Inr (prop_of v k))"

text \<open>\<open>for (const x of v)\<close>: arrays yield their elements, strings their characters,
  anything else is not iterable.\<close>

fun js_iterate :: "jv \<Rightarrow> js_error + jv list" where
  "js_iterate (JArr xs) = Inr xs"
| "js_iterate (JStr s) = Inr (map (\<lambda>c. JStr [c]) s)"
| "js_iterate v = Inl TypeError"

text \<open>Splitting a string at every occurrence of a separator (\<open>s.split(c)\<close>).\<close>

fun split_on :: "char \<Rightarrow> string \<Rightarrow> string list" where
  "split_on c [] = [[]]"
| "split_on c (x # xs) =
     (if x = c then [] # split_on c xs
      else (case split_on c xs of [] \<Rightarrow> [[x]] | w # ws \<Rightarrow> (x # w) # ws))"

subsection \<open>Shared lemmas\<close>

lemma split_on_no_sep [simp]: "c \<notin> set a \<Longrightarrow> split_on c a = [a]"
  by (induction a) auto

lemma split_on_sep [simp]: "c \<notin> set a \<Longrightarrow> split_on c (a @ c # b) = a # split_on c b"
  by (induction a) (auto split: list.splits)

lemma split_on_nonempty: "split_on c s \<noteq> []"
  by (induction s) (auto split: list.splits)

lemma js_or_truthy [js_simps]: "truthy a \<Longrightarrow> js_or a b = a"
  by (simp add: js_or_def)

lemma js_or_falsy [js_simps]: "\<not> truthy a \<Longrightarrow> js_or a b = b"
  by (simp add: js_or_def)

lemma get_prop_nullish [js_simps]: "nullish v \<Longrightarrow> get_prop v k = Inl TypeError"
  by (simp add: get_prop_def)

lemma get_prop_value [js_simps]: "\<not> nullish v \<Longrightarrow> get_prop v k = Inr (prop_of v k)"
  by (simp add: get_prop_def)

lemma nullish_simps [simp]:
  "nullish JUndefined" "nullish JNull" "\<not> nullish (JObj fs)" "\<not> nullish (JStr s)"
  "\<not> nullish (JArr xs)" "\<not> nullish (JNum n)" "\<not> nullish (JBool b)" "\<not> nullish JNaN"
  by (simp_all add: nullish_def)

text \<open>Prefixing every part with the separator and dropping the first character
  is joining.\<close>

lemma join_sep_drop:
  "drop 1 (concat (map (Cons c) ss)) = join_sep c ss"
proof (induction ss)
  case Nil
  then show ?case by simp
next
  case (Cons s ss)
  then show ?case by (cases ss) simp_all
qed

lemma map_of_same_key:
  "map_of ((k, v) # map (\<lambda>x. (k, f x)) ys) = [k \<mapsto> v]"
  by (auto simp: fun_eq_iff map_of_eq_None_iff)

end
