(* ===== verification/Endpoints.thy ===== *)
theory Endpoints
  imports Prelude
begin

text \<open>
  The endpoint table \<^verbatim>\<open>discordEndpoints.js\<close> that \<^verbatim>\<open>src/index.js\<close> requires
  and installs as globals (\<^verbatim>\<open>loadEndpoints\<close>). The file is not part of
  \<^verbatim>\<open>src/\<close>: the four templates the facade uses are modelled from the spec
  (section 6) and the Discord REST paths they name. Each template is a
  JavaScript template literal, so its ids go through \<open>String(v)\<close>.
  The lemmas show that the four paths are unambiguous: the route and its ids
  are recovered from the path whenever no id contains a slash.
\<close>

definition GUILD :: "jv \<Rightarrow> string" where
  "GUILD guildID = ''/guilds/'' @ js_to_string guildID"

definition GUILD_MEMBER :: "jv \<Rightarrow> jv \<Rightarrow> string" where
  "GUILD_MEMBER guildID memberID =
     ''/guilds/'' @ js_to_string guildID @ ''/members/'' @ js_to_string memberID"

definition GUILD_MEMBER_ROLE :: "jv \<Rightarrow> jv \<Rightarrow> jv \<Rightarrow> string" where
  "GUILD_MEMBER_ROLE guildID memberID roleID =
     ''/guilds/'' @ js_to_string guildID @ ''/members/'' @ js_to_string memberID
       @ ''/roles/'' @ js_to_string roleID"

definition USER_GUILDS :: "jv \<Rightarrow> string" where
  "USER_GUILDS userID = ''/users/'' @ js_to_string userID @ ''/guilds''"

subsection \<open>Routes and their parser\<close>

datatype route =
    RGuild string
  | RGuildMember string string
  | RGuildMemberRole string string string
  | RUserGuilds string

fun route_path :: "route \<Rightarrow> string" where
  "route_path (RGuild g) = GUILD (JStr g)"
| "route_path (RGuildMember g u) = GUILD_MEMBER (JStr g) (JStr u)"
| "route_path (RGuildMemberRole g u r) = GUILD_MEMBER_ROLE (JStr g) (JStr u) (JStr r)"
| "route_path (RUserGuilds u) = USER_GUILDS (JStr u)"

fun route_ids :: "route \<Rightarrow> string list" where
  "route_ids (RGuild g) = [g]"
| "route_ids (RGuildMember g u) = [g, u]"
| "route_ids (RGuildMemberRole g u r) = [g, u, r]"
| "route_ids (RUserGuilds u) = [u]"

definition slash_free :: "route \<Rightarrow> bool" where
  "slash_free r \<longleftrightarrow> list_all (\<lambda>i. CHR ''/'' \<notin> set i) (route_ids r)"

fun parse_segments :: "string list \<Rightarrow> route option" where
  "parse_segments [[], s, g] = (if s = ''guilds'' then Some (RGuild g) else None)"
| "parse_segments [[], s, g, m, u] =
     (if s = ''guilds'' \<and> m = ''members'' then Some (RGuildMember g u) else None)"
| "parse_segments [[], s, g, m, u, r, x] =
     (if s = ''guilds'' \<and> m = ''members'' \<and> r = ''roles'' then Some (RGuildMemberRole g u x)
      else None)"
| "parse_segments [[], s, u, t] =
     (if s = ''users'' \<and> t = ''guilds'' then Some (RUserGuilds u) else None)"
| "parse_segments _ = None"

definition parse_route :: "string \<Rightarrow> route option" where
  "parse_route p = parse_segments (split_on CHR ''/'' p)"

lemma parse_route_path: "slash_free r \<Longrightarrow> parse_route (route_path r) = Some r"
  by (cases r) (simp_all add: parse_route_def slash_free_def GUILD_def GUILD_MEMBER_def
      GUILD_MEMBER_ROLE_def USER_GUILDS_def)

text \<open>Two routes whose ids contain no slash have the same path
  only if they are the same route with the same ids: no two endpoints of the
  table, and no two id tuples of one endpoint, share a path.\<close>

theorem route_path_injective:
  assumes "slash_free r1" and "slash_free r2" and "route_path r1 = route_path r2"
  shows "r1 = r2"
proof -
  have "Some r1 = parse_route (route_path r1)"
    using assms(1) by (simp add: parse_route_path)
  also have "\<dots> = Some r2"
    using assms(2,3) by (simp add: parse_route_path)
  finally show ?thesis by simp
qed

theorem route_path_injective_witness:
  "RGuild ''42'' = RGuild ''42'' \<and> route_path (RGuild ''42'') \<noteq> route_path (RUserGuilds ''42'')"
proof
  show "RGuild ''42'' = RGuild ''42''"
    by (rule route_path_injective) (simp_all add: slash_free_def)
  show "route_path (RGuild ''42'') \<noteq> route_path (RUserGuilds ''42'')"
  proof
    assume eq: "route_path (RGuild ''42'') = route_path (RUserGuilds ''42'')"
    have "slash_free (RGuild ''42'')" and "slash_free (RUserGuilds ''42'')"
      by (simp_all add: slash_free_def)
    from route_path_injective [OF this eq] show False by simp
  qed
qed

end
