(* ===== verification/RestClient.thy ===== *)
theory RestClient
  imports Prelude
begin

text \<open>
  The interface to the external collaborator: \<^verbatim>\<open>src/index.js\<close> extends the
  \<^verbatim>\<open>RequestHandler\<close> of \<^verbatim>\<open>discord-oauth2\<close> and reaches it only through
  \<^verbatim>\<open>this.request(method, path, body, options)\<close>. A request is the record of
  these four arguments; the options object is
  \<^verbatim>\<open>{auth: {type, creds}, contentType}\<close>. Rate limiting, retries and
  transport are the handler's and are not modelled: a call of the handler is
  seen by the facade as a settled promise, a value or an error, which is the
  type \<open>rest_result\<close>. In the sequential view a REST client is a function from
  requests to results; in the interleaving view (theory \<open>AsyncCache\<close>) the
  result is chosen by the environment when the request settles.
\<close>

record auth =
  auth_type :: string
  creds :: jv

record req_options =
  req_auth :: auth
  contentType :: string

record rest_request =
  req_method :: string
  req_path :: string
  req_body :: jv
  req_opts :: req_options

type_synonym rest_result = "js_error + jv"

type_synonym rest_client = "rest_request \<Rightarrow> rest_result"

text \<open>The request every facade method sends: a GET with an empty body,
  bot-token authentication and a JSON content type.\<close>

definition bot_request :: "string \<Rightarrow> jv \<Rightarrow> rest_request" where
  "bot_request p botToken =
     \<lparr>req_method = ''GET'', req_path = p, req_body = JObj [],
      req_opts = \<lparr>req_auth = \<lparr>auth_type = ''Bot'', creds = botToken\<rparr>,
                  contentType = ''application/json''\<rparr>\<rparr>"

end
