(* ===== verification/Facade.thy ===== *)
theory Facade
  imports Endpoints RestClient
begin

text \<open>
  The class \<^verbatim>\<open>Discord\<close> of \<^verbatim>\<open>src/index.js\<close>: its state (the options handed
  to the request handler, the OAuth2 fields, and the class fields
  \<^verbatim>\<open>GuildCacheTimeout\<close> and \<^verbatim>\<open>GuildCache\<close>), its constructor with the
  \<^verbatim>\<open>||\<close> defaults, and the stateless pass-through methods
  \<^verbatim>\<open>getGuildMember\<close>, \<^verbatim>\<open>getGuildMemberRole\<close>, \<^verbatim>\<open>_getGuild\<close> and the request
  of \<^verbatim>\<open>getAllGuilds\<close>. The cache operations are in theory \<open>GuildCache\<close>.
  \<^verbatim>\<open>GuildCache\<close> is a JavaScript array used as a dictionary; its own entries
  are modelled as a map from property keys to entries. Theory \<open>ArrayStore\<close>
  adds the array's length and inherited names, and shows the map view exact for
  every key but \<^verbatim>\<open>length\<close> and \<^verbatim>\<open>__proto__\<close>.
\<close>

record discord_opts =
  version :: jv
  requestTimeout :: jv
  latencyThreshold :: jv
  ratelimiterOffset :: jv
  clientId :: jv
  clientSecret :: jv
  redirectUri :: jv

text \<open>\<^verbatim>\<open>new Discord()\<close>: the default parameter \<^verbatim>\<open>opts = {}\<close>.\<close>

definition empty_opts :: discord_opts where
  "empty_opts = \<lparr>version = JUndefined, requestTimeout = JUndefined,
     latencyThreshold = JUndefined, ratelimiterOffset = JUndefined,
     clientId = JUndefined, clientSecret = JUndefined, redirectUri = JUndefined\<rparr>"

text \<open>The object passed to \<^verbatim>\<open>super(...)\<close>, the request handler's configuration.\<close>

record handler_config =
  cfg_version :: jv
  cfg_requestTimeout :: jv
  cfg_latencyThreshold :: jv
  cfg_ratelimiterOffset :: jv

record cache_entry =
  guild :: jv
  lastUpdated :: timestamp

record discord =
  handler :: handler_config
  client_id :: jv
  client_secret :: jv
  redirect_uri :: jv
  GuildCacheTimeout :: int
  GuildCache :: "string \<rightharpoonup> cache_entry"

definition Discord_new :: "discord_opts \<Rightarrow> discord" where
  "Discord_new opts =
     \<lparr>handler = \<lparr>cfg_version = js_or (version opts) (JStr ''v7''),
                 cfg_requestTimeout = js_or (requestTimeout opts) (JNum 15000),
                 cfg_latencyThreshold = js_or (latencyThreshold opts) (JNum 30000),
                 cfg_ratelimiterOffset = js_or (ratelimiterOffset opts) (JNum 0)\<rparr>,
      client_id = clientId opts,
      client_secret = clientSecret opts,
      redirect_uri = redirectUri opts,
      GuildCacheTimeout = 10000,
      GuildCache = Map.empty\<rparr>"

subsection \<open>Pass-through requests\<close>

text \<open>The argument object of the request methods; an absent field is
  \<open>undefined\<close>.\<close>

record call_opts =
  guildId :: jv
  userId :: jv
  roleId :: jv
  botToken :: jv

definition getGuildMember_req :: "call_opts \<Rightarrow> rest_request" where
  "getGuildMember_req opts = bot_request (GUILD_MEMBER (guildId opts) (userId opts)) (botToken opts)"

definition getGuildMember :: "rest_client \<Rightarrow> call_opts \<Rightarrow> rest_result" where
  "getGuildMember rest opts = rest (getGuildMember_req opts)"

definition getGuildMemberRole_req :: "call_opts \<Rightarrow> rest_request" where
  "getGuildMemberRole_req opts =
     bot_request (GUILD_MEMBER_ROLE (guildId opts) (userId opts) (roleId opts)) (botToken opts)"

definition getGuildMemberRole :: "rest_client \<Rightarrow> call_opts \<Rightarrow> rest_result" where
  "getGuildMemberRole rest opts = rest (getGuildMemberRole_req opts)"

text \<open>\<^verbatim>\<open>_getGuild\<close>, the uncached guild fetch (a leading underscore is not an
  Isabelle name).\<close>

definition fetchGuild_req :: "call_opts \<Rightarrow> rest_request" where
  "fetchGuild_req opts = bot_request (GUILD (guildId opts)) (botToken opts)"

definition fetchGuild :: "rest_client \<Rightarrow> call_opts \<Rightarrow> rest_result" where
  "fetchGuild rest opts = rest (fetchGuild_req opts)"

text \<open>The request of \<^verbatim>\<open>getAllGuilds\<close>: the guilds of the bot itself.\<close>

definition getAllGuilds_req :: "call_opts \<Rightarrow> rest_request" where
  "getAllGuilds_req opts = bot_request (USER_GUILDS (JStr ''@me'')) (botToken opts)"

lemma Discord_new_cache [simp]:
  "GuildCache (Discord_new opts) = Map.empty"
  "GuildCacheTimeout (Discord_new opts) = 10000"
  by (simp_all add: Discord_new_def)

text \<open>C14: each request method asks for its own endpoint with the ids it was
  given, in order, and every request is a GET authenticated as the bot with the
  caller's token and a JSON content type.\<close>

theorem facade_requests_route:
  assumes "guildId opts = JStr g" and "userId opts = JStr u" and "roleId opts = JStr r"
    and "list_all (\<lambda>i. CHR ''/'' \<notin> set i) [g, u, r]"
  shows "parse_route (req_path (fetchGuild_req opts)) = Some (RGuild g) \<and>
    parse_route (req_path (getGuildMember_req opts)) = Some (RGuildMember g u) \<and>
    parse_route (req_path (getGuildMemberRole_req opts)) = Some (RGuildMemberRole g u r) \<and>
    parse_route (req_path (getAllGuilds_req opts)) = Some (RUserGuilds ''@me'') \<and>
    list_all (\<lambda>rq. req_method rq = ''GET'' \<and>
        req_opts rq = \<lparr>req_auth = \<lparr>auth_type = ''Bot'', creds = botToken opts\<rparr>,
                       contentType = ''application/json''\<rparr>)
      [fetchGuild_req opts, getGuildMember_req opts, getGuildMemberRole_req opts, getAllGuilds_req opts]"
proof -
  have "parse_route (GUILD (JStr g)) = Some (RGuild g)"
    and "parse_route (GUILD_MEMBER (JStr g) (JStr u)) = Some (RGuildMember g u)"
    and "parse_route (GUILD_MEMBER_ROLE (JStr g) (JStr u) (JStr r)) = Some (RGuildMemberRole g u r)"
    and "parse_route (USER_GUILDS (JStr ''@me'')) = Some (RUserGuilds ''@me'')"
    using assms(4) parse_route_path [of "RGuild g"] parse_route_path [of "RGuildMember g u"]
      parse_route_path [of "RGuildMemberRole g u r"] parse_route_path [of "RUserGuilds ''@me''"]
    by (simp_all add: slash_free_def)
  with assms(1-3) show ?thesis
    by (simp add: fetchGuild_req_def getGuildMember_req_def getGuildMemberRole_req_def
        getAllGuilds_req_def bot_request_def)
qed

theorem facade_requests_route_witness:
  "parse_route (req_path (getGuildMemberRole_req
     \<lparr>guildId = JStr ''1'', userId = JStr ''2'', roleId = JStr ''3'', botToken = JStr ''t''\<rparr>)) =
   Some (RGuildMemberRole ''1'' ''2'' ''3'')"
  using facade_requests_route
    [of "\<lparr>guildId = JStr ''1'', userId = JStr ''2'', roleId = JStr ''3'', botToken = JStr ''t''\<rparr>"
        "''1''" "''2''" "''3''"]
  by simp

end
