(* ===== verification/GuildCache.thy ===== *)
theory GuildCache
  imports Facade
begin

text \<open>
  The guild cache of \<^verbatim>\<open>src/index.js\<close>: \<^verbatim>\<open>getGuild\<close> (lines 173-195) and
  \<^verbatim>\<open>getAllGuilds\<close> (lines 202-226), in their sequential reading: the REST
  client is a function, and the two reads of \<^verbatim>\<open>Date.now()\<close> in
  \<^verbatim>\<open>getGuild\<close> (before and after the \<^verbatim>\<open>await\<close>) are the parameters
  \<open>t0\<close> and \<open>t1\<close>. Each method is split at its \<^verbatim>\<open>await\<close> into the part
  that runs when it is called and the part that runs when the request settles
  (the \<open>_resume\<close> definitions), so that theory \<open>AsyncCache\<close> can interleave
  them. Synchronous code reads one clock value: the loop of \<^verbatim>\<open>getAllGuilds\<close>
  stamps every entry with the same time.

  The lemmas give the behaviour of every branch: the hit branch returns the
  cached guild with no request when the entry is \<^emph>\<open>older\<close> than
  \<^verbatim>\<open>GuildCacheTimeout\<close> (the comparison of line 178 is \<open>>\<close>); a missing or
  younger entry is refetched and overwritten; a failed fetch changes nothing.
  \<^verbatim>\<open>getAllGuilds\<close> overwrites one entry per listed guild, keeps the entries
  written before an element whose \<^verbatim>\<open>.id\<close> read throws, and files the
  characters of a string response under the key \<^verbatim>\<open>undefined\<close>. Against an
  abstract server that maps each guild key to one immutable record, the cache
  is transparent (\<open>getGuild_refines\<close>).
\<close>

named_theorems cache_simps "unfolding rules of the guild cache operations"

subsection \<open>\<^verbatim>\<open>getGuild\<close>\<close>

text \<open>Lines 188-191 and 219-222: the entry written after a successful fetch.\<close>

definition cache_store :: "discord \<Rightarrow> string \<Rightarrow> jv \<Rightarrow> timestamp \<Rightarrow> discord" where
  "cache_store d k g now =
     d\<lparr>GuildCache := (GuildCache d)(k \<mapsto> \<lparr>guild = g, lastUpdated = now\<rparr>)\<rparr>"

text \<open>Lines 176-182: the entry is served only when \<open>now - lastUpdated\<close> exceeds
  the timeout.\<close>

definition cached_guild :: "discord \<Rightarrow> string \<Rightarrow> timestamp \<Rightarrow> jv option" where
  "cached_guild d k now =
     (case GuildCache d k of
        None \<Rightarrow> None
      | Some e \<Rightarrow> if now - lastUpdated e > GuildCacheTimeout d then Some (guild e) else None)"

text \<open>Lines 185-194, after the \<^verbatim>\<open>await\<close>: a rejected fetch propagates and
  writes nothing.\<close>

definition getGuild_resume :: "discord \<Rightarrow> string \<Rightarrow> rest_result \<Rightarrow> timestamp \<Rightarrow> discord \<times> rest_result" where
  "getGuild_resume d k r now =
     (case r of
        Inl err \<Rightarrow> (d, Inl err)
      | Inr g \<Rightarrow> (cache_store d k g now, Inr g))"

definition getGuild :: "rest_client \<Rightarrow> discord \<Rightarrow> call_opts \<Rightarrow> timestamp \<Rightarrow> timestamp \<Rightarrow> discord \<times> rest_result" where
  "getGuild rest d opts t0 t1 =
     (let k = js_to_string (guildId opts) in
      case cached_guild d k t0 of
        Some g \<Rightarrow> (d, Inr g)
      | None \<Rightarrow> getGuild_resume d k (fetchGuild rest opts) t1)"

subsection \<open>\<^verbatim>\<open>getAllGuilds\<close>\<close>

text \<open>Lines 218-223: the loop over the listed guilds; reading \<^verbatim>\<open>guild.id\<close>
  throws on \<open>null\<close> or \<open>undefined\<close>, leaving the entries already written.\<close>

fun cache_guilds :: "discord \<Rightarrow> jv list \<Rightarrow> timestamp \<Rightarrow> discord \<times> js_error option" where
  "cache_guilds d [] now = (d, None)"
| "cache_guilds d (g # gs) now =
     (case get_prop g ''id'' of
        Inl err \<Rightarrow> (d, Some err)
      | Inr i \<Rightarrow> cache_guilds (cache_store d (js_to_string i) g now) gs now)"

definition getAllGuilds_resume :: "discord \<Rightarrow> rest_result \<Rightarrow> timestamp \<Rightarrow> discord \<times> rest_result" where
  "getAllGuilds_resume d r now =
     (case r of
        Inl err \<Rightarrow> (d, Inl err)
      | Inr guilds \<Rightarrow>
          (case js_iterate guilds of
             Inl err \<Rightarrow> (d, Inl err)
           | Inr gs \<Rightarrow>
               (case cache_guilds d gs now of
                  (d', None) \<Rightarrow> (d', Inr guilds)
                | (d', Some err) \<Rightarrow> (d', Inl err))))"

definition getAllGuilds :: "rest_client \<Rightarrow> discord \<Rightarrow> call_opts \<Rightarrow> timestamp \<Rightarrow> discord \<times> rest_result" where
  "getAllGuilds rest d opts now = getAllGuilds_resume d (rest (getAllGuilds_req opts)) now"

subsection \<open>An abstract server\<close>

text \<open>
  The contract under which a cache is transparent: the server answers every
  guild fetch with one fixed record per guild key, and every cached entry is
  that record.
\<close>

definition serves_guilds :: "(string \<Rightarrow> jv) \<Rightarrow> rest_client \<Rightarrow> bool" where
  "serves_guilds srv rest \<longleftrightarrow>
     (\<forall>opts. rest (fetchGuild_req opts) = Inr (srv (js_to_string (guildId opts))))"

definition cache_consistent :: "(string \<Rightarrow> jv) \<Rightarrow> discord \<Rightarrow> bool" where
  "cache_consistent srv d \<longleftrightarrow> (\<forall>k e. GuildCache d k = Some e \<longrightarrow> guild e = srv k)"

text \<open>The key and entry \<^verbatim>\<open>getAllGuilds\<close> writes for one listed guild.\<close>

definition guild_key :: "jv \<Rightarrow> string" where
  "guild_key g = js_to_string (prop_of g ''id'')"

definition listed_entries :: "jv list \<Rightarrow> timestamp \<Rightarrow> string \<rightharpoonup> cache_entry" where
  "listed_entries gs now = map_of (rev (map (\<lambda>g. (guild_key g, \<lparr>guild = g, lastUpdated = now\<rparr>)) gs))"

subsection \<open>Unfolding lemmas\<close>

lemma cache_store_simps [simp]:
  "GuildCache (cache_store d k g now) = (GuildCache d)(k \<mapsto> \<lparr>guild = g, lastUpdated = now\<rparr>)"
  "GuildCacheTimeout (cache_store d k g now) = GuildCacheTimeout d"
  "handler (cache_store d k g now) = handler d"
  by (simp_all add: cache_store_def)

lemma cached_guild_Some [cache_simps]:
  "GuildCache d k = Some e \<Longrightarrow> GuildCacheTimeout d < now - lastUpdated e \<Longrightarrow>
   cached_guild d k now = Some (guild e)"
  by (simp add: cached_guild_def)

lemma cached_guild_None [cache_simps]:
  "GuildCache d k = None \<Longrightarrow> cached_guild d k now = None"
  "GuildCache d k = Some e \<Longrightarrow> now - lastUpdated e \<le> GuildCacheTimeout d \<Longrightarrow>
   cached_guild d k now = None"
  by (simp_all add: cached_guild_def)

lemma cached_guild_SomeD:
  "cached_guild d k now = Some g \<Longrightarrow>
   \<exists>e. GuildCache d k = Some e \<and> guild e = g \<and> GuildCacheTimeout d < now - lastUpdated e"
  by (auto simp: cached_guild_def split: option.splits if_splits)

lemma getGuild_resume_cache [cache_simps]:
  "getGuild_resume d k (Inl err) now = (d, Inl err)"
  "getGuild_resume d k (Inr g) now = (cache_store d k g now, Inr g)"
  by (simp_all add: getGuild_resume_def)

lemma cache_guilds_all:
  "list_all (\<lambda>g. \<not> nullish g) gs \<Longrightarrow>
   cache_guilds d gs now = (d\<lparr>GuildCache := GuildCache d ++ listed_entries gs now\<rparr>, None)"
proof (induction gs arbitrary: d)
  case Nil
  then show ?case by (simp add: listed_entries_def)
next
  case (Cons g gs)
  then show ?case
    by (simp add: js_simps listed_entries_def guild_key_def cache_store_def map_add_assoc [symmetric])
qed

lemma cache_guilds_append:
  "list_all (\<lambda>g. \<not> nullish g) gs \<Longrightarrow>
   cache_guilds d (gs @ hs) now =
     cache_guilds (d\<lparr>GuildCache := GuildCache d ++ listed_entries gs now\<rparr>) hs now"
proof (induction gs arbitrary: d)
  case Nil
  then show ?case by (simp add: listed_entries_def)
next
  case (Cons g gs)
  then show ?case
    by (simp add: js_simps listed_entries_def guild_key_def cache_store_def map_add_assoc [symmetric])
qed

lemma listed_entries_chars:
  assumes "s \<noteq> []"
  shows "listed_entries (map (\<lambda>c. JStr [c]) s) now =
    [''undefined'' \<mapsto> \<lparr>guild = JStr [last s], lastUpdated = now\<rparr>]"
proof -
  obtain y ys where r: "rev s = y # ys"
    using assms by (cases "rev s") auto
  then have "y = last s"
    by (metis hd_rev list.sel(1))
  moreover have "listed_entries (map (\<lambda>c. JStr [c]) s) now =
      map_of (map (\<lambda>c. (''undefined'', \<lparr>guild = JStr [c], lastUpdated = now\<rparr>)) (rev s))"
    by (simp add: listed_entries_def guild_key_def rev_map comp_def)
  ultimately show ?thesis
    using r by (simp only: list.map map_of_same_key)
qed

lemma cache_consistent_store [intro]:
  "cache_consistent srv d \<Longrightarrow> cache_consistent srv (cache_store d k (srv k) t)"
  by (simp add: cache_consistent_def)

subsection \<open>Behaviour of \<^verbatim>\<open>getGuild\<close>\<close>

text \<open>C1: when the guild has an entry older than \<^verbatim>\<open>GuildCacheTimeout\<close>,
  \<^verbatim>\<open>getGuild\<close> returns the cached guild, leaves the state unchanged, and
  calls no REST client (the result is the same for every client).\<close>

theorem getGuild_stale_hit:
  assumes "GuildCache d (js_to_string (guildId opts)) = Some e"
    and "GuildCacheTimeout d < t0 - lastUpdated e"
  shows "getGuild rest d opts t0 t1 = (d, Inr (guild e))"
  using assms by (simp add: getGuild_def cache_simps)

theorem getGuild_stale_hit_witness:
  "getGuild (\<lambda>_. Inr JNull)
     ((Discord_new empty_opts)\<lparr>GuildCache := [''42'' \<mapsto> \<lparr>guild = JStr ''G'', lastUpdated = 0\<rparr>]\<rparr>)
     \<lparr>guildId = JStr ''42'', userId = JUndefined, roleId = JUndefined, botToken = JStr ''tok''\<rparr>
     20000 20001 =
   ((Discord_new empty_opts)\<lparr>GuildCache := [''42'' \<mapsto> \<lparr>guild = JStr ''G'', lastUpdated = 0\<rparr>]\<rparr>,
    Inr (JStr ''G''))"
  by (subst getGuild_stale_hit [where e = "\<lparr>guild = JStr ''G'', lastUpdated = 0\<rparr>"])
     (simp_all add: Discord_new_def)

text \<open>C2: when the guild has an entry no older than \<^verbatim>\<open>GuildCacheTimeout\<close>,
  \<^verbatim>\<open>getGuild\<close> fetches it again: a failed fetch is returned with the state
  unchanged, a successful one overwrites the entry with the time read after the
  \<^verbatim>\<open>await\<close>. (The comment of line 177 and the spec expect the entry to be
  served here.)\<close>

theorem getGuild_fresh_refetch:
  assumes "GuildCache d (js_to_string (guildId opts)) = Some e"
    and "t0 - lastUpdated e \<le> GuildCacheTimeout d"
  shows "getGuild rest d opts t0 t1 =
    (case fetchGuild rest opts of
       Inl err \<Rightarrow> (d, Inl err)
     | Inr g \<Rightarrow> (cache_store d (js_to_string (guildId opts)) g t1, Inr g))"
  using assms by (simp add: getGuild_def cache_simps getGuild_resume_def)

theorem getGuild_fresh_refetch_witness:
  "getGuild (\<lambda>_. Inr (JStr ''H''))
     ((Discord_new empty_opts)\<lparr>GuildCache := [''42'' \<mapsto> \<lparr>guild = JStr ''G'', lastUpdated = 0\<rparr>]\<rparr>)
     \<lparr>guildId = JStr ''42'', userId = JUndefined, roleId = JUndefined, botToken = JStr ''tok''\<rparr>
     5000 5001 =
   (cache_store ((Discord_new empty_opts)\<lparr>GuildCache := [''42'' \<mapsto> \<lparr>guild = JStr ''G'', lastUpdated = 0\<rparr>]\<rparr>)
      ''42'' (JStr ''H'') 5001, Inr (JStr ''H''))"
  by (subst getGuild_fresh_refetch [where e = "\<lparr>guild = JStr ''G'', lastUpdated = 0\<rparr>"])
     (simp_all add: Discord_new_def fetchGuild_def)

text \<open>C3: a guild with no entry is fetched; on success the result is stored
  under the key \<open>String(guildId)\<close> with the time read after the
  \<^verbatim>\<open>await\<close> and returned, on failure the error is returned and nothing is
  stored.\<close>

theorem getGuild_miss:
  assumes "GuildCache d (js_to_string (guildId opts)) = None"
  shows "getGuild rest d opts t0 t1 =
    (case fetchGuild rest opts of
       Inl err \<Rightarrow> (d, Inl err)
     | Inr g \<Rightarrow> (cache_store d (js_to_string (guildId opts)) g t1, Inr g))"
  using assms by (simp add: getGuild_def cache_simps getGuild_resume_def)

theorem getGuild_miss_witness:
  "getGuild (\<lambda>_. Inr (JStr ''H'')) (Discord_new empty_opts)
     \<lparr>guildId = JStr ''42'', userId = JUndefined, roleId = JUndefined, botToken = JStr ''tok''\<rparr> 0 1 =
   (cache_store (Discord_new empty_opts) ''42'' (JStr ''H'') 1, Inr (JStr ''H''))"
  by (subst getGuild_miss) (simp_all add: Discord_new_def fetchGuild_def)

text \<open>C4: a failed fetch never changes the facade's state: the caller gets the
  error, or the stale cached guild when the fetch was not needed.\<close>

theorem getGuild_error_keeps_cache:
  assumes "fetchGuild rest opts = Inl err"
  shows "fst (getGuild rest d opts t0 t1) = d \<and>
    (snd (getGuild rest d opts t0 t1) = Inl err \<or>
     (\<exists>e. GuildCache d (js_to_string (guildId opts)) = Some e \<and>
          snd (getGuild rest d opts t0 t1) = Inr (guild e)))"
proof (cases "cached_guild d (js_to_string (guildId opts)) t0")
  case None
  with assms show ?thesis by (simp add: getGuild_def cache_simps)
next
  case (Some g)
  then show ?thesis by (auto simp: getGuild_def dest: cached_guild_SomeD)
qed

theorem getGuild_error_keeps_cache_witness:
  "fst (getGuild (\<lambda>_. Inl (HTTPError 404))
     ((Discord_new empty_opts)\<lparr>GuildCache := [''42'' \<mapsto> \<lparr>guild = JStr ''G'', lastUpdated = 0\<rparr>]\<rparr>)
     \<lparr>guildId = JStr ''42'', userId = JUndefined, roleId = JUndefined, botToken = JStr ''tok''\<rparr> 5000 5001) =
   (Discord_new empty_opts)\<lparr>GuildCache := [''42'' \<mapsto> \<lparr>guild = JStr ''G'', lastUpdated = 0\<rparr>]\<rparr>"
  using getGuild_error_keeps_cache [where rest = "\<lambda>_. Inl (HTTPError 404)" and err = "HTTPError 404"]
  by (simp add: fetchGuild_def)

text \<open>C5 (refinement): if the server answers every guild fetch with one fixed
  record per guild key and the cache holds only such records, then
  \<^verbatim>\<open>getGuild\<close> returns exactly what the uncached \<^verbatim>\<open>_getGuild\<close> returns
  and the cache keeps holding only such records.\<close>

theorem getGuild_refines:
  assumes "serves_guilds srv rest" and "cache_consistent srv d"
    and "getGuild rest d opts t0 t1 = (d', r)"
  shows "r = fetchGuild rest opts \<and> cache_consistent srv d'"
proof (cases "cached_guild d (js_to_string (guildId opts)) t0")
  case None
  with assms show ?thesis
    by (auto simp: getGuild_def Let_def cache_simps fetchGuild_def serves_guilds_def)
next
  case (Some g)
  then obtain e where "GuildCache d (js_to_string (guildId opts)) = Some e" and "guild e = g"
    by (blast dest: cached_guild_SomeD)
  with Some assms show ?thesis
    by (auto simp: getGuild_def fetchGuild_def serves_guilds_def cache_consistent_def)
qed

theorem getGuild_refines_witness:
  "snd (getGuild (\<lambda>r. Inr (JStr (drop 8 (req_path r)))) (Discord_new empty_opts)
     \<lparr>guildId = JStr ''42'', userId = JUndefined, roleId = JUndefined, botToken = JStr ''tok''\<rparr> 0 1) =
   fetchGuild (\<lambda>r. Inr (JStr (drop 8 (req_path r))))
     \<lparr>guildId = JStr ''42'', userId = JUndefined, roleId = JUndefined, botToken = JStr ''tok''\<rparr>"
proof -
  have "serves_guilds (\<lambda>k. JStr k) (\<lambda>r. Inr (JStr (drop 8 (req_path r))))"
    by (simp add: serves_guilds_def fetchGuild_req_def bot_request_def GUILD_def)
  moreover have "cache_consistent (\<lambda>k. JStr k) (Discord_new empty_opts)"
    by (simp add: cache_consistent_def Discord_new_def)
  ultimately show ?thesis
    by (rule getGuild_refines [OF _ _ surjective_pairing, THEN conjunct1])
qed

subsection \<open>Behaviour of \<^verbatim>\<open>getAllGuilds\<close>\<close>

text \<open>C6: when the bot's guild list is an array of objects,
  \<^verbatim>\<open>getAllGuilds\<close> returns it and overwrites the entry of every listed
  guild id with that guild and the call time, later duplicates winning; other
  entries are untouched.\<close>

theorem getAllGuilds_overwrites:
  assumes "rest (getAllGuilds_req opts) = Inr (JArr gs)"
    and "list_all (\<lambda>g. \<not> nullish g) gs"
  shows "getAllGuilds rest d opts now =
    (d\<lparr>GuildCache := GuildCache d ++ listed_entries gs now\<rparr>, Inr (JArr gs))"
  using assms by (simp add: getAllGuilds_def getAllGuilds_resume_def cache_guilds_all)

theorem getAllGuilds_overwrites_witness:
  "GuildCache (fst (getAllGuilds (\<lambda>_. Inr (JArr [JObj [(''id'', JStr ''1'')], JObj [(''id'', JStr ''2'')]]))
     (Discord_new empty_opts)
     \<lparr>guildId = JUndefined, userId = JUndefined, roleId = JUndefined, botToken = JStr ''tok''\<rparr> 7)) ''2'' =
   Some \<lparr>guild = JObj [(''id'', JStr ''2'')], lastUpdated = 7\<rparr>"
  by (subst getAllGuilds_overwrites [where gs = "[JObj [(''id'', JStr ''1'')], JObj [(''id'', JStr ''2'')]]"])
     (simp_all add: listed_entries_def guild_key_def)

text \<open>C7: when an element of the list is \<open>null\<close> or \<open>undefined\<close>, reading its
  \<^verbatim>\<open>id\<close> throws a \<open>TypeError\<close>: the call fails, and the entries of the
  guilds before it stay written.\<close>

theorem getAllGuilds_partial_on_error:
  assumes "rest (getAllGuilds_req opts) = Inr (JArr (gs @ g # hs))"
    and "list_all (\<lambda>g. \<not> nullish g) gs" and "nullish g"
  shows "getAllGuilds rest d opts now =
    (d\<lparr>GuildCache := GuildCache d ++ listed_entries gs now\<rparr>, Inl TypeError)"
  using assms by (simp add: getAllGuilds_def getAllGuilds_resume_def cache_guilds_append js_simps)

theorem getAllGuilds_partial_on_error_witness:
  "getAllGuilds (\<lambda>_. Inr (JArr [JObj [(''id'', JStr ''1'')], JNull, JObj [(''id'', JStr ''2'')]]))
     (Discord_new empty_opts)
     \<lparr>guildId = JUndefined, userId = JUndefined, roleId = JUndefined, botToken = JStr ''tok''\<rparr> 7 =
   (cache_store (Discord_new empty_opts) ''1'' (JObj [(''id'', JStr ''1'')]) 7, Inl TypeError)"
  by (subst getAllGuilds_partial_on_error [where gs = "[JObj [(''id'', JStr ''1'')]]"
        and g = JNull and hs = "[JObj [(''id'', JStr ''2'')]]"])
     (simp_all add: listed_entries_def guild_key_def cache_store_def)

text \<open>C8: when the REST client answers with a non-empty string (a body that is
  not JSON), the loop iterates its characters, reads \<^verbatim>\<open>id\<close> of each as
  \<open>undefined\<close>, and leaves one entry under the key \<^verbatim>\<open>undefined\<close> holding
  the last character.\<close>

theorem getAllGuilds_string_response:
  assumes "rest (getAllGuilds_req opts) = Inr (JStr s)" and "s \<noteq> []"
  shows "getAllGuilds rest d opts now = (cache_store d ''undefined'' (JStr [last s]) now, Inr (JStr s))"
proof -
  have "list_all (\<lambda>g. \<not> nullish g) (map (\<lambda>c. JStr [c]) s)"
    by (simp add: list_all_iff)
  with assms show ?thesis
    by (simp add: getAllGuilds_def getAllGuilds_resume_def cache_guilds_all listed_entries_chars
        cache_store_def)
qed

theorem getAllGuilds_string_response_witness:
  "getAllGuilds (\<lambda>_. Inr (JStr ''ok''))  (Discord_new empty_opts)
     \<lparr>guildId = JUndefined, userId = JUndefined, roleId = JUndefined, botToken = JStr ''tok''\<rparr> 7 =
   (cache_store (Discord_new empty_opts) ''undefined'' (JStr ''k'') 7, Inr (JStr ''ok''))"
  using getAllGuilds_string_response [where s = "''ok''"] by simp

end
