(* ===== verification/AsyncCache.thy ===== *)
theory AsyncCache
  imports GuildCache
begin

text \<open>
  The cache methods of \<^verbatim>\<open>src/index.js\<close> as they really run: \<^verbatim>\<open>getGuild\<close>
  and \<^verbatim>\<open>getAllGuilds\<close> are \<^verbatim>\<open>async\<close>, so each runs synchronously up to its
  \<^verbatim>\<open>await\<close> (the cache check and the call of \<^verbatim>\<open>this.request\<close>), and the rest
  runs when the request settles, after any number of other calls, other
  settlements and clock ticks. A \<open>world\<close> holds the facade, the clock read by
  \<^verbatim>\<open>Date.now()\<close>, the calls waiting at their \<^verbatim>\<open>await\<close>, the requests sent to
  the REST client, the answers it gave, and the results of the finished calls.
  An \<open>event\<close> is one thing the environment does: let time pass, call a
  method (naming the call's promise by a fresh number), or settle a pending
  request with a value or an error. \<open>world_step\<close> runs one event (\<open>None\<close>
  when it is not possible), \<open>run\<close> a list of them, \<open>reach\<close> is the set of
  worlds reachable from a freshly constructed facade.
\<close>

datatype pending_call = PGetGuild string | PGetAllGuilds

record world =
  disc :: discord
  clock :: timestamp
  pending :: "(nat \<times> pending_call) list"
  issued :: "(nat \<times> rest_request) list"
  settled :: "(nat \<times> rest_result) list"
  results :: "nat \<rightharpoonup> rest_result"

datatype event =
    Tick nat
  | CallGetGuild nat call_opts
  | CallGetAllGuilds nat call_opts
  | Settle nat rest_result

definition init_world :: "discord \<Rightarrow> timestamp \<Rightarrow> world" where
  "init_world d t =
     \<lparr>disc = d, clock = t, pending = [], issued = [], settled = [], results = Map.empty\<rparr>"

definition fresh_call :: "world \<Rightarrow> nat \<Rightarrow> bool" where
  "fresh_call w c \<longleftrightarrow> c \<notin> set (map fst (pending w)) \<and> results w c = None"

text \<open>The code after the \<^verbatim>\<open>await\<close> of each method.\<close>

fun resume :: "discord \<Rightarrow> pending_call \<Rightarrow> rest_result \<Rightarrow> timestamp \<Rightarrow> discord \<times> rest_result" where
  "resume d (PGetGuild k) r now = getGuild_resume d k r now"
| "resume d PGetAllGuilds r now = getAllGuilds_resume d r now"

fun world_step :: "world \<Rightarrow> event \<Rightarrow> world option" where
  "world_step w (Tick n) = Some (w\<lparr>clock := clock w + int n\<rparr>)"
| "world_step w (CallGetGuild c opts) =
     (if \<not> fresh_call w c then None
      else
        let k = js_to_string (guildId opts) in
        case cached_guild (disc w) k (clock w) of
          Some g \<Rightarrow> Some (w\<lparr>results := (results w)(c \<mapsto> Inr g)\<rparr>)
        | None \<Rightarrow> Some (w\<lparr>pending := pending w @ [(c, PGetGuild k)],
                          issued := issued w @ [(c, fetchGuild_req opts)]\<rparr>))"
| "world_step w (CallGetAllGuilds c opts) =
     (if \<not> fresh_call w c then None
      else Some (w\<lparr>pending := pending w @ [(c, PGetAllGuilds)],
                   issued := issued w @ [(c, getAllGuilds_req opts)]\<rparr>))"
| "world_step w (Settle c r) =
     (case map_of (pending w) c of
        None \<Rightarrow> None
      | Some p \<Rightarrow>
          (case resume (disc w) p r (clock w) of
             (d', res) \<Rightarrow>
               Some (w\<lparr>disc := d', pending := filter (\<lambda>x. fst x \<noteq> c) (pending w),
                       settled := settled w @ [(c, r)], results := (results w)(c \<mapsto> res)\<rparr>)))"

fun run :: "world \<Rightarrow> event list \<Rightarrow> world option" where
  "run w [] = Some w"
| "run w (e # es) = (case world_step w e of None \<Rightarrow> None | Some w' \<Rightarrow> run w' es)"

inductive reach :: "world \<Rightarrow> bool" where
  init: "reach (init_world (Discord_new opts) t)"
| step: "reach w \<Longrightarrow> world_step w e = Some w' \<Longrightarrow> reach w'"

text \<open>The values the REST client delivered: every successful answer, and the
  elements a \<^verbatim>\<open>for ... of\<close> over it yields.\<close>

fun delivered_by :: "rest_result \<Rightarrow> jv list" where
  "delivered_by (Inl err) = []"
| "delivered_by (Inr v) = v # (case js_iterate v of Inl _ \<Rightarrow> [] | Inr gs \<Rightarrow> gs)"

definition delivered :: "world \<Rightarrow> jv list" where
  "delivered w = concat (map (delivered_by \<circ> snd) (settled w))"

definition world_inv :: "world \<Rightarrow> bool" where
  "world_inv w \<longleftrightarrow>
     (\<forall>k e. GuildCache (disc w) k = Some e \<longrightarrow>
        lastUpdated e \<le> clock w \<and> guild e \<in> set (delivered w))
     \<and> distinct (map fst (pending w))
     \<and> (\<forall>c \<in> set (map fst (pending w)). results w c = None)
     \<and> GuildCacheTimeout (disc w) = 10000"

text \<open>No call that may still write the key \<open>k\<close> waits at its \<^verbatim>\<open>await\<close>.\<close>

definition no_writer_pending :: "world \<Rightarrow> string \<Rightarrow> bool" where
  "no_writer_pending w k \<longleftrightarrow> list_all (\<lambda>(c, p). p \<noteq> PGetAllGuilds \<and> p \<noteq> PGetGuild k) (pending w)"

fun calls_getAll :: "event \<Rightarrow> bool" where
  "calls_getAll (CallGetAllGuilds c opts) = True"
| "calls_getAll e = False"

subsection \<open>Invariant and frame lemmas\<close>

lemma cache_guilds_provenance:
  "cache_guilds d gs now = (d', x) \<Longrightarrow> GuildCache d' k = Some e \<Longrightarrow>
   GuildCache d k = Some e \<or> (guild e \<in> set gs \<and> lastUpdated e = now)"
proof (induction gs arbitrary: d)
  case Nil
  then show ?case by simp
next
  case (Cons g gs)
  show ?case
  proof (cases "get_prop g ''id''")
    case (Inl err)
    with Cons.prems show ?thesis by simp
  next
    case (Inr i)
    with Cons.prems have "GuildCache (cache_store d (js_to_string i) g now) k = Some e \<or>
        (guild e \<in> set gs \<and> lastUpdated e = now)"
      by (intro Cons.IH) simp_all
    then show ?thesis by (auto split: if_splits)
  qed
qed

lemma cache_guilds_timeout:
  "cache_guilds d gs now = (d', x) \<Longrightarrow> GuildCacheTimeout d' = GuildCacheTimeout d"
  by (induction d gs now arbitrary: d' rule: cache_guilds.induct) (auto split: sum.splits)

lemma resume_provenance:
  assumes "resume d p r now = (d', res)" and "GuildCache d' k = Some e"
  shows "GuildCache d k = Some e \<or> (guild e \<in> set (delivered_by r) \<and> lastUpdated e = now)"
proof (cases p)
  case (PGetGuild k')
  with assms show ?thesis
    by (cases r) (auto simp: getGuild_resume_def split: if_splits)
next
  case PGetAllGuilds
  with assms show ?thesis
    by (auto simp: getAllGuilds_resume_def split: sum.splits prod.splits option.splits
        dest: cache_guilds_provenance)
qed

lemma resume_timeout:
  "resume d p r now = (d', res) \<Longrightarrow> GuildCacheTimeout d' = GuildCacheTimeout d"
  by (cases p) (auto simp: getGuild_resume_def getAllGuilds_resume_def
      split: sum.splits prod.splits option.splits dest: cache_guilds_timeout)

lemma world_inv_init: "world_inv (init_world (Discord_new opts) t)"
  by (simp add: world_inv_def init_world_def)

lemma world_inv_tick: "world_inv w \<Longrightarrow> world_inv (w\<lparr>clock := clock w + int n\<rparr>)"
  unfolding world_inv_def delivered_def by fastforce

lemma world_inv_call:
  assumes "world_inv w" and "fresh_call w c"
  shows "world_inv (w\<lparr>results := (results w)(c \<mapsto> res)\<rparr>)"
    and "world_inv (w\<lparr>pending := pending w @ [(c, p)], issued := issued w @ [(c, rq)]\<rparr>)"
  using assms unfolding world_inv_def fresh_call_def delivered_def by auto

lemma world_inv_settle:
  assumes inv: "world_inv w" and rs: "resume (disc w) p r (clock w) = (d', res)"
  shows "world_inv (w\<lparr>disc := d', pending := filter (\<lambda>x. fst x \<noteq> c) (pending w),
                     settled := settled w @ [(c, r)], results := (results w)(c \<mapsto> res)\<rparr>)"
  (is "world_inv ?w'")
proof -
  have cache: "lastUpdated e \<le> clock ?w' \<and> guild e \<in> set (delivered ?w')"
    if "GuildCache (disc ?w') k = Some e" for k e
  proof -
    from that rs have "GuildCache (disc w) k = Some e \<or>
        (guild e \<in> set (delivered_by r) \<and> lastUpdated e = clock w)"
      by (simp add: resume_provenance)
    with inv show ?thesis
      by (auto simp: world_inv_def delivered_def)
  qed
  have "distinct (map fst (pending ?w'))"
    using inv by (simp add: world_inv_def distinct_map_filter)
  moreover have "\<forall>c' \<in> set (map fst (pending ?w')). results ?w' c' = None"
    using inv by (auto simp: world_inv_def)
  moreover have "GuildCacheTimeout (disc ?w') = 10000"
    using inv resume_timeout [OF rs] by (simp add: world_inv_def)
  ultimately show ?thesis
    using cache by (simp add: world_inv_def)
qed

lemma world_step_inv:
  assumes "world_inv w" and "world_step w ev = Some w'"
  shows "world_inv w'"
proof (cases ev)
  case (Tick n)
  with assms show ?thesis by (auto intro: world_inv_tick)
next
  case (CallGetGuild c opts)
  with assms show ?thesis
    by (auto simp: Let_def intro: world_inv_call split: if_splits option.splits)
next
  case (CallGetAllGuilds c opts)
  with assms show ?thesis
    by (auto intro: world_inv_call split: if_splits)
next
  case (Settle c r)
  with assms show ?thesis
    by (auto intro: world_inv_settle split: option.splits prod.splits)
qed

lemma stale_step:
  assumes step: "world_step w ev = Some w'" and "\<not> calls_getAll ev"
    and ent: "GuildCache (disc w) k = Some e"
    and old: "GuildCacheTimeout (disc w) < clock w - lastUpdated e"
    and nw: "no_writer_pending w k"
  shows "GuildCache (disc w') k = Some e \<and> GuildCacheTimeout (disc w') = GuildCacheTimeout (disc w)
    \<and> clock w \<le> clock w' \<and> no_writer_pending w' k"
proof (cases ev)
  case (Tick n)
  with assms show ?thesis by (auto simp: no_writer_pending_def)
next
  case (CallGetGuild c opts)
  show ?thesis
  proof (cases "js_to_string (guildId opts) = k")
    case True
    with step ent old CallGetGuild show ?thesis
      using nw by (auto simp: cached_guild_def no_writer_pending_def split: if_splits)
  next
    case False
    with step nw CallGetGuild show ?thesis
      using ent by (auto simp: Let_def no_writer_pending_def split: if_splits option.splits)
  qed
next
  case (CallGetAllGuilds c opts)
  with assms show ?thesis by simp
next
  case (Settle c r)
  with step obtain p where p: "map_of (pending w) c = Some p"
    by (auto split: option.splits)
  then have "(c, p) \<in> set (pending w)"
    by (rule map_of_SomeD)
  with nw obtain k' where k': "p = PGetGuild k'" "k' \<noteq> k"
    by (cases p) (auto simp: no_writer_pending_def list_all_iff)
  with step Settle p ent nw show ?thesis
    by (cases r) (auto simp: getGuild_resume_def no_writer_pending_def list_all_iff)
qed



lemma card_dom_store:
  "finite (dom m) \<Longrightarrow> finite (dom (m(k \<mapsto> v))) \<and> card (dom (m(k \<mapsto> v))) \<le> card (dom m) + 1"
  by (simp add: card_insert_if)

lemma cache_guilds_card:
  "finite (dom (GuildCache d)) \<Longrightarrow> cache_guilds d gs now = (d', x) \<Longrightarrow>
   finite (dom (GuildCache d')) \<and> card (dom (GuildCache d')) \<le> card (dom (GuildCache d)) + length gs"
proof (induction gs arbitrary: d)
  case Nil
  then show ?case by simp
next
  case (Cons g gs)
  show ?case
  proof (cases "get_prop g ''id''")
    case (Inl err)
    with Cons.prems show ?thesis by simp
  next
    case (Inr i)
    let ?d1 = "cache_store d (js_to_string i) g now"
    have d1: "finite (dom (GuildCache ?d1)) \<and> card (dom (GuildCache ?d1)) \<le> card (dom (GuildCache d)) + 1"
      using card_dom_store [OF Cons.prems(1)] by simp
    with Cons.prems Inr Cons.IH [of ?d1] show ?thesis
      by fastforce
  qed
qed

lemma resume_card:
  assumes "finite (dom (GuildCache d))" and "resume d p r now = (d', res)"
  shows "finite (dom (GuildCache d')) \<and>
    card (dom (GuildCache d')) \<le> card (dom (GuildCache d)) + length (delivered_by r)"
proof (cases p)
  case (PGetGuild k)
  with assms show ?thesis
    by (cases r) (auto simp: getGuild_resume_def dest: card_dom_store [where k = k])
next
  case PGetAllGuilds
  with assms show ?thesis
    by (fastforce simp: getAllGuilds_resume_def split: sum.splits prod.splits option.splits
        dest: cache_guilds_card)
qed

lemma cache_guilds_dom:
  "cache_guilds d gs now = (d', x) \<Longrightarrow> dom (GuildCache d) \<subseteq> dom (GuildCache d')"
proof (induction gs arbitrary: d)
  case (Cons g gs)
  then show ?case
    by (cases "get_prop g ''id''") (fastforce simp: cache_store_def)+
qed simp

lemma resume_dom:
  "resume d p r now = (d', res) \<Longrightarrow> dom (GuildCache d) \<subseteq> dom (GuildCache d')"
  by (cases p; cases r)
     (auto simp: getGuild_resume_def getAllGuilds_resume_def cache_store_def
        split: sum.splits prod.splits option.splits dest!: cache_guilds_dom)

lemma world_step_dom:
  "world_step w e = Some w' \<Longrightarrow> dom (GuildCache (disc w)) \<subseteq> dom (GuildCache (disc w'))"
  by (cases e) (auto simp: Let_def split: if_splits option.splits prod.splits dest!: resume_dom)

lemma reach_run: "reach w \<Longrightarrow> run w es = Some w' \<Longrightarrow> reach w'"
proof (induction es arbitrary: w)
  case Nil
  then show ?case by simp
next
  case (Cons e es)
  then show ?case by (auto intro: reach.step split: option.splits)
qed

subsection \<open>Properties of interleaved calls\<close>

text \<open>C9 (invariant): in every reachable world, every cache entry was stamped
  no later than the current clock and holds a value the REST client actually
  delivered (an answer or an element of a listed answer; never an error), the
  waiting calls have distinct names and no result yet, and the timeout is still
  10000 ms.\<close>

theorem reach_world_inv: "reach w \<Longrightarrow> world_inv w"
proof (induction rule: reach.induct)
  case (init opts t)
  then show ?case by (rule world_inv_init)
next
  case (step w e w')
  then show ?case by (blast intro: world_step_inv)
qed

theorem reach_world_inv_witness:
  "world_inv (the (run (init_world (Discord_new empty_opts) 0)
     [CallGetGuild 1 \<lparr>guildId = JStr ''42'', userId = JUndefined, roleId = JUndefined, botToken = JStr ''tok''\<rparr>, Tick 4, Settle 1 (Inr (JStr ''G'')),
      CallGetAllGuilds 2 \<lparr>guildId = JStr ''42'', userId = JUndefined, roleId = JUndefined, botToken = JStr ''tok''\<rparr>]))"
proof -
  have "reach (the (run (init_world (Discord_new empty_opts) 0)
     [CallGetGuild 1 \<lparr>guildId = JStr ''42'', userId = JUndefined, roleId = JUndefined, botToken = JStr ''tok''\<rparr>, Tick 4, Settle 1 (Inr (JStr ''G'')),
      CallGetAllGuilds 2 \<lparr>guildId = JStr ''42'', userId = JUndefined, roleId = JUndefined, botToken = JStr ''tok''\<rparr>]))"
    by (rule reach_run [OF reach.init [of empty_opts 0], where es = "[CallGetGuild 1 \<lparr>guildId = JStr ''42'',
        userId = JUndefined, roleId = JUndefined, botToken = JStr ''tok''\<rparr>, Tick 4,
        Settle 1 (Inr (JStr ''G'')), CallGetAllGuilds 2 \<lparr>guildId = JStr ''42'',
        userId = JUndefined, roleId = JUndefined, botToken = JStr ''tok''\<rparr>]"])
       (simp add: init_world_def fresh_call_def cached_guild_def getGuild_resume_def Let_def)
  then show ?thesis by (rule reach_world_inv)
qed

text \<open>C10 (ordering): the entry a guild fetch leaves is the answer of the
  request that settles last, stamped with the time it settled, whatever the
  order in which the calls were made: two concurrent \<^verbatim>\<open>getGuild\<close> calls
  for one guild both reach the REST client and the later settlement wins.\<close>

theorem settle_last_wins:
  assumes "map_of (pending w) c = Some (PGetGuild k)"
    and "world_step w (Settle c (Inr g)) = Some w'"
  shows "GuildCache (disc w') k = Some \<lparr>guild = g, lastUpdated = clock w\<rparr> \<and> results w' c = Some (Inr g)"
  using assms by (auto simp: getGuild_resume_def)

theorem settle_last_wins_witness:
  "GuildCache (disc (the (world_step
     (the (run (init_world (Discord_new empty_opts) 0)
        [CallGetGuild 1 \<lparr>guildId = JStr ''42'', userId = JUndefined, roleId = JUndefined, botToken = JStr ''tok''\<rparr>, CallGetGuild 2 \<lparr>guildId = JStr ''42'', userId = JUndefined, roleId = JUndefined, botToken = JStr ''tok''\<rparr>, Settle 2 (Inr (JStr ''A''))]))
     (Settle 1 (Inr (JStr ''B'')))))) ''42'' =
   Some \<lparr>guild = JStr ''B'', lastUpdated = 0\<rparr>"
proof -
  let ?w = "the (run (init_world (Discord_new empty_opts) 0)
        [CallGetGuild 1 \<lparr>guildId = JStr ''42'', userId = JUndefined, roleId = JUndefined, botToken = JStr ''tok''\<rparr>, CallGetGuild 2 \<lparr>guildId = JStr ''42'', userId = JUndefined, roleId = JUndefined, botToken = JStr ''tok''\<rparr>, Settle 2 (Inr (JStr ''A''))])"
  have p: "map_of (pending ?w) 1 = Some (PGetGuild ''42'')"
    by (simp add: init_world_def fresh_call_def cached_guild_def getGuild_resume_def Let_def)
  have s: "world_step ?w (Settle 1 (Inr (JStr ''B''))) =
      Some (the (world_step ?w (Settle 1 (Inr (JStr ''B'')))))"
    by (simp add: init_world_def fresh_call_def cached_guild_def getGuild_resume_def Let_def)
  have c: "clock ?w = 0"
    by (simp add: init_world_def fresh_call_def cached_guild_def getGuild_resume_def Let_def)
  from settle_last_wins [OF p s] c show ?thesis by simp
qed



text \<open>C12 (safety): once an entry is older than the timeout and no call that
  could write it is waiting, no sequence of events without
  \<^verbatim>\<open>getAllGuilds\<close> calls changes it, and every \<^verbatim>\<open>getGuild\<close> for that
  guild keeps being served from it: \<^verbatim>\<open>getGuild\<close> never refreshes a stale
  entry.\<close>

theorem stale_entry_never_refreshed:
  assumes "run w es = Some w'" and "list_all (\<lambda>ev. \<not> calls_getAll ev) es"
    and "GuildCache (disc w) k = Some e"
    and "GuildCacheTimeout (disc w) < clock w - lastUpdated e"
    and "no_writer_pending w k"
  shows "GuildCache (disc w') k = Some e \<and> cached_guild (disc w') k (clock w') = Some (guild e)"
  using assms
proof (induction es arbitrary: w)
  case Nil
  then show ?case by (simp add: cached_guild_def)
next
  case (Cons ev es)
  then obtain w1 where s1: "world_step w ev = Some w1" and r1: "run w1 es = Some w'"
    by (auto split: option.splits)
  from stale_step [OF s1 _ Cons.prems(3-5)] Cons.prems(2)
  have "GuildCache (disc w1) k = Some e" "GuildCacheTimeout (disc w1) < clock w1 - lastUpdated e"
    "no_writer_pending w1 k"
    using Cons.prems(4) by auto
  with r1 Cons.prems(2) show ?case
    by (intro Cons.IH) auto
qed

theorem stale_entry_never_refreshed_witness:
  "GuildCache (disc (the (run
     (the (run (init_world (Discord_new empty_opts) 0) [CallGetGuild 1 \<lparr>guildId = JStr ''42'', userId = JUndefined, roleId = JUndefined, botToken = JStr ''tok''\<rparr>, Settle 1 (Inr (JStr ''G'')), Tick 10001]))
     [CallGetGuild 2 \<lparr>guildId = JStr ''42'', userId = JUndefined, roleId = JUndefined, botToken = JStr ''tok''\<rparr>, Tick 60000, CallGetGuild 3 \<lparr>guildId = JStr ''42'', userId = JUndefined, roleId = JUndefined, botToken = JStr ''tok''\<rparr>]))) ''42'' =
   Some \<lparr>guild = JStr ''G'', lastUpdated = 0\<rparr>"
proof -
  let ?w = "the (run (init_world (Discord_new empty_opts) 0) [CallGetGuild 1 \<lparr>guildId = JStr ''42'', userId = JUndefined, roleId = JUndefined, botToken = JStr ''tok''\<rparr>, Settle 1 (Inr (JStr ''G'')), Tick 10001])"
  let ?es = "[CallGetGuild 2 \<lparr>guildId = JStr ''42'', userId = JUndefined, roleId = JUndefined, botToken = JStr ''tok''\<rparr>, Tick 60000, CallGetGuild 3 \<lparr>guildId = JStr ''42'', userId = JUndefined, roleId = JUndefined, botToken = JStr ''tok''\<rparr>]"
  have r: "run ?w ?es = Some (the (run ?w ?es))"
    by (simp add: init_world_def fresh_call_def cached_guild_def getGuild_resume_def Let_def)
  have l: "list_all (\<lambda>ev. \<not> calls_getAll ev) ?es"
    by simp
  have a: "GuildCache (disc ?w) ''42'' = Some \<lparr>guild = JStr ''G'', lastUpdated = 0\<rparr>"
    and b: "GuildCacheTimeout (disc ?w) < clock ?w - lastUpdated \<lparr>guild = JStr ''G'', lastUpdated = 0\<rparr>"
    and c: "no_writer_pending ?w ''42''"
    by (simp_all add: init_world_def fresh_call_def cached_guild_def getGuild_resume_def Let_def
        no_writer_pending_def)
  from stale_entry_never_refreshed [OF r l a b c] show ?thesis
    by (rule conjunct1)
qed

text \<open>The cache of a reachable world is finite and holds at most one entry per
  value the REST client delivered (an answer or an element of a listed
  answer). Since nothing removes an entry (C22), this is the only bound on its
  growth.\<close>

lemma reach_cache_size:
  "reach w \<Longrightarrow> finite (dom (GuildCache (disc w))) \<and> card (dom (GuildCache (disc w))) \<le> length (delivered w)"
proof (induction rule: reach.induct)
  case (init opts t)
  then show ?case by (simp add: init_world_def delivered_def)
next
  case (step w e w')
  show ?case
  proof (cases e)
    case (Settle c r)
    with step.hyps(2) obtain p d' res where
      p: "map_of (pending w) c = Some p" and rs: "resume (disc w) p r (clock w) = (d', res)"
      and w': "w' = w\<lparr>disc := d', pending := filter (\<lambda>x. fst x \<noteq> c) (pending w),
                 settled := settled w @ [(c, r)], results := (results w)(c \<mapsto> res)\<rparr>"
      by (auto split: option.splits prod.splits)
    from resume_card [OF _ rs] step.IH show ?thesis
      by (auto simp: w' delivered_def)
  qed (use step in \<open>auto simp: delivered_def Let_def split: if_splits option.splits\<close>)
qed

text \<open>C22 (safety): no event removes a cache entry: along every run of
  events the set of cached guild ids only grows. A failed request, a
  \<open>TypeError\<close> in the middle of the guild list and a concurrent call all leave
  every existing entry in place (the cache has no eviction; see also
  \<open>reach_cache_size\<close>).\<close>

theorem run_cache_grows:
  "run w es = Some w' \<Longrightarrow> dom (GuildCache (disc w)) \<subseteq> dom (GuildCache (disc w'))"
proof (induction es arbitrary: w)
  case (Cons e es)
  then obtain w1 where "world_step w e = Some w1" and "run w1 es = Some w'"
    by (auto split: option.splits)
  with Cons.IH show ?case
    by (blast dest: world_step_dom)
qed simp

theorem run_cache_grows_witness:
  "dom (GuildCache (disc (init_world ((Discord_new empty_opts)\<lparr>GuildCache := [''42'' \<mapsto> \<lparr>guild = JStr ''G'', lastUpdated = 0\<rparr>]\<rparr>) 0))) \<subseteq>
   dom (GuildCache (disc (the (run (init_world ((Discord_new empty_opts)\<lparr>GuildCache := [''42'' \<mapsto> \<lparr>guild = JStr ''G'', lastUpdated = 0\<rparr>]\<rparr>) 0)
     [CallGetGuild 1 \<lparr>guildId = JStr ''42'', userId = JUndefined, roleId = JUndefined, botToken = JStr ''tok''\<rparr>,
      Settle 1 (Inl NetworkError)]))))"
  by (rule run_cache_grows [where es = "[CallGetGuild 1 \<lparr>guildId = JStr ''42'', userId = JUndefined, roleId = JUndefined, botToken = JStr ''tok''\<rparr>,
      Settle 1 (Inl NetworkError)]"])
     (simp add: init_world_def fresh_call_def cached_guild_def getGuild_resume_def Let_def Discord_new_def)

end
