(* ===== verification/JsObject.thy ===== *)
theory JsObject
  imports Prelude "HOL-Library.Multiset"
begin

text \<open>
  Own-property enumeration of an ordinary JavaScript object, as
  \<^verbatim>\<open>Object.entries\<close> and \<^verbatim>\<open>Object.keys\<close> perform it. The object is the list
  of its own properties in insertion order (no key twice). The ECMAScript
  property order lists the array-index keys first, in ascending numeric order,
  then the other string keys in insertion order. Used by \<^verbatim>\<open>_encode\<close>
  (theory \<open>UriEncode\<close>) and by \<^verbatim>\<open>loadEndpoints\<close> (theory \<open>LoadEndpoints\<close>).
\<close>

definition is_digit :: "char \<Rightarrow> bool" where
  "is_digit c \<longleftrightarrow> c \<in> set ''0123456789''"

definition digits_val :: "string \<Rightarrow> nat" where
  "digits_val s = foldl (\<lambda>n c. 10 * n + (of_char c - 48)) 0 s"

text \<open>A canonical decimal numeral below \<open>2^32 - 1\<close> names an array index.\<close>

definition is_array_index :: "string \<Rightarrow> bool" where
  "is_array_index k \<longleftrightarrow>
     k \<noteq> [] \<and> list_all is_digit k \<and> (k = ''0'' \<or> hd k \<noteq> CHR ''0'')
     \<and> digits_val k < 4294967295"

definition object_entries :: "(string \<times> 'v) list \<Rightarrow> (string \<times> 'v) list" where
  "object_entries obj =
     sort_key (\<lambda>(k, v). digits_val k) (filter (\<lambda>(k, v). is_array_index k) obj)
     @ filter (\<lambda>(k, v). \<not> is_array_index k) obj"

definition object_keys :: "(string \<times> 'v) list \<Rightarrow> string list" where
  "object_keys obj = map fst (object_entries obj)"

subsection \<open>Enumeration lemmas\<close>

text \<open>\<^verbatim>\<open>Object.entries\<close> lists every own property exactly once.\<close>

lemma object_entries_mset: "mset (object_entries obj) = mset obj"
  by (simp add: object_entries_def)

lemma object_keys_set [simp]: "set (object_keys obj) = set (map fst obj)"
proof -
  have "set (object_entries obj) = set obj"
    using object_entries_mset [of obj] by (metis set_mset_mset)
  then show ?thesis by (simp add: object_keys_def)
qed

lemma object_keys_distinct:
  "distinct (map fst obj) \<Longrightarrow> distinct (object_keys obj)"
  using mset_eq_imp_distinct_iff [of "map fst (object_entries obj)" "map fst obj"]
  by (simp add: object_keys_def object_entries_mset)

text \<open>An object with an array-index key enumerates such a key first.\<close>

lemma object_keys_index_first:
  assumes "k \<in> set (map fst obj)" and "is_array_index k"
  shows "object_keys obj \<noteq> [] \<and> is_array_index (hd (object_keys obj))"
proof -
  let ?ix = "filter (\<lambda>(k, v). is_array_index k) obj"
  have "?ix \<noteq> []"
    using assms by (auto simp: filter_empty_conv)
  then have "sort_key (\<lambda>(k, v). digits_val k) ?ix \<noteq> []"
    by (metis length_0_conv length_sort)
  then obtain e es where e: "sort_key (\<lambda>(k, v). digits_val k) ?ix = e # es"
    by (cases "sort_key (\<lambda>(k, v). digits_val k) ?ix") auto
  then have "e \<in> set ?ix"
    by (metis list.set_intros(1) set_sort)
  with e show ?thesis
    by (auto simp: object_keys_def object_entries_def)
qed

end
