(* ===== verification/ArrayStore.thy ===== *)
theory ArrayStore
  imports GuildCache JsObject
begin

text \<open>
  \<^verbatim>\<open>GuildCache = []\<close> (\<^verbatim>\<open>src/index.js\<close> line 167) is an Array used as a
  dictionary: \<^verbatim>\<open>this.GuildCache[guildId]\<close> reads and writes the property
  named \<open>String(guildId)\<close> of an Array exotic object. Theory \<open>GuildCache\<close>
  models the cache as a map from keys to entries. This theory models the Array
  itself and shows where the two agree.
  \<^item> The state is the facade (its map \<open>GuildCache\<close> holds the own entries
    the code wrote) together with the array's \<^verbatim>\<open>length\<close>.
  \<^item> A read (\<open>arr_get\<close>) gives the own entry; for \<^verbatim>\<open>length\<close> the length (a
    number); for a name the array inherits from \<^verbatim>\<open>Array.prototype\<close> or
    \<^verbatim>\<open>Object.prototype\<close> (ES2023) a function or the prototype object; and
    \<open>undefined\<close> otherwise. The cache test of lines 176-178 on a number or a
    function reads \<^verbatim>\<open>.lastUpdated\<close> as \<open>undefined\<close>, so
    \<open>Date.now() - undefined\<close> is \<open>NaN\<close>, the comparison is false and the
    code fetches.
  \<^item> A write (\<open>arr_set\<close>) of an entry object under \<^verbatim>\<open>length\<close> throws a
    \<open>RangeError\<close> (\<open>ToNumber\<close> of an object is \<open>NaN\<close>, not a valid length).
    Under an array index it also raises the length to one past the index.
    Under \<^verbatim>\<open>__proto__\<close> it replaces the prototype of the array: that call is
    \<open>None\<close> here, and theory \<open>ArrayProto\<close> models it.
  The main lemma is a refinement: for every key other than \<^verbatim>\<open>length\<close> and
  \<^verbatim>\<open>__proto__\<close>, the Array-backed methods compute what the map model
  computes; the key \<^verbatim>\<open>length\<close> is never cached.
\<close>

definition array_proto_names :: "string list" where
  "array_proto_names =
     [''length'', ''constructor'', ''at'', ''concat'', ''copyWithin'', ''fill'', ''find'', ''findIndex'',
      ''findLast'', ''findLastIndex'', ''lastIndexOf'', ''pop'', ''push'', ''reverse'', ''shift'',
      ''unshift'', ''slice'', ''sort'', ''splice'', ''includes'', ''indexOf'', ''join'', ''keys'',
      ''entries'', ''values'', ''forEach'', ''filter'', ''flat'', ''flatMap'', ''map'', ''every'',
      ''some'', ''reduce'', ''reduceRight'', ''toLocaleString'', ''toString'', ''toReversed'',
      ''toSorted'', ''toSpliced'', ''with'']"

definition object_proto_names :: "string list" where
  "object_proto_names =
     [''constructor'', ''__defineGetter__'', ''__defineSetter__'', ''hasOwnProperty'',
      ''__lookupGetter__'', ''__lookupSetter__'', ''isPrototypeOf'', ''propertyIsEnumerable'',
      ''toString'', ''valueOf'', ''__proto__'', ''toLocaleString'']"

definition inherited_name :: "string \<Rightarrow> bool" where
  "inherited_name k \<longleftrightarrow> k \<in> set array_proto_names \<or> k \<in> set object_proto_names"

text \<open>The facade and \<^verbatim>\<open>GuildCache.length\<close>.\<close>

type_synonym arr_state = "discord \<times> nat"

text \<open>What \<^verbatim>\<open>this.GuildCache[guildId]\<close> evaluates to.\<close>

datatype slot = Entry cache_entry | LengthVal nat | Builtin | Absent

definition arr_get :: "arr_state \<Rightarrow> string \<Rightarrow> slot" where
  "arr_get s k =
     (if k = ''length'' then LengthVal (snd s)
      else case GuildCache (fst s) k of
             Some e \<Rightarrow> Entry e
           | None \<Rightarrow> if inherited_name k then Builtin else Absent)"

text \<open>Lines 176-182: the guild is served only from an entry object older than
  the timeout; a length of \<open>0\<close> or \<open>undefined\<close> is falsy, and a nonzero
  length or an inherited function has no \<^verbatim>\<open>lastUpdated\<close>, so the comparison
  with \<open>NaN\<close> is false.\<close>

definition cached_slot :: "discord \<Rightarrow> slot \<Rightarrow> timestamp \<Rightarrow> jv option" where
  "cached_slot d v now =
     (case v of
        Entry e \<Rightarrow> if now - lastUpdated e > GuildCacheTimeout d then Some (guild e) else None
      | _ \<Rightarrow> None)"

text \<open>Lines 188-191 and 219-222: \<^verbatim>\<open>this.GuildCache[k] = {guild, lastUpdated}\<close>.\<close>

definition arr_set :: "arr_state \<Rightarrow> string \<Rightarrow> jv \<Rightarrow> timestamp \<Rightarrow> (js_error + arr_state) option" where
  "arr_set s k g now =
     (if k = ''length'' then Some (Inl RangeError)
      else if k = ''__proto__'' then None
      else Some (Inr (cache_store (fst s) k g now,
                      if is_array_index k then max (snd s) (Suc (digits_val k)) else snd s)))"

definition getGuild_arr ::
  "rest_client \<Rightarrow> arr_state \<Rightarrow> call_opts \<Rightarrow> timestamp \<Rightarrow> timestamp \<Rightarrow> (arr_state \<times> rest_result) option" where
  "getGuild_arr rest s opts t0 t1 =
     (let k = js_to_string (guildId opts) in
      case cached_slot (fst s) (arr_get s k) t0 of
        Some g \<Rightarrow> Some (s, Inr g)
      | None \<Rightarrow>
          (case fetchGuild rest opts of
             Inl err \<Rightarrow> Some (s, Inl err)
           | Inr g \<Rightarrow>
               (case arr_set s k g t1 of
                  None \<Rightarrow> None
                | Some (Inl err) \<Rightarrow> Some (s, Inl err)
                | Some (Inr s') \<Rightarrow> Some (s', Inr g))))"

fun cache_guilds_arr :: "arr_state \<Rightarrow> jv list \<Rightarrow> timestamp \<Rightarrow> (arr_state \<times> js_error option) option" where
  "cache_guilds_arr s [] now = Some (s, None)"
| "cache_guilds_arr s (g # gs) now =
     (case get_prop g ''id'' of
        Inl err \<Rightarrow> Some (s, Some err)
      | Inr i \<Rightarrow>
          (case arr_set s (js_to_string i) g now of
             None \<Rightarrow> None
           | Some (Inl err) \<Rightarrow> Some (s, Some err)
           | Some (Inr s') \<Rightarrow> cache_guilds_arr s' gs now))"

definition getAllGuilds_arr ::
  "rest_client \<Rightarrow> arr_state \<Rightarrow> call_opts \<Rightarrow> timestamp \<Rightarrow> (arr_state \<times> rest_result) option" where
  "getAllGuilds_arr rest s opts now =
     (case rest (getAllGuilds_req opts) of
        Inl err \<Rightarrow> Some (s, Inl err)
      | Inr guilds \<Rightarrow>
          (case js_iterate guilds of
             Inl err \<Rightarrow> Some (s, Inl err)
           | Inr gs \<Rightarrow>
               map_option (\<lambda>(s', e). (s', case e of None \<Rightarrow> Inr guilds | Some err \<Rightarrow> Inl err))
                 (cache_guilds_arr s gs now)))"

subsection \<open>Keys read as map keys\<close>

text \<open>A key the Array treats like a map key.\<close>

definition plain_key :: "string \<Rightarrow> bool" where
  "plain_key k \<longleftrightarrow> k \<noteq> ''length'' \<and> k \<noteq> ''__proto__''"

definition listed_plain :: "jv \<Rightarrow> bool" where
  "listed_plain v =
     (case js_iterate v of Inl _ \<Rightarrow> True | Inr gs \<Rightarrow> list_all (\<lambda>g. plain_key (guild_key g)) gs)"

subsection \<open>Refinement lemmas\<close>

lemma arr_get_plain:
  "k \<noteq> ''length'' \<Longrightarrow> cached_slot (fst s) (arr_get s k) now = cached_guild (fst s) k now"
  by (simp add: arr_get_def cached_slot_def cached_guild_def split: option.splits)

lemma arr_set_plain:
  "plain_key k \<Longrightarrow> arr_set s k g now =
     Some (Inr (cache_store (fst s) k g now, if is_array_index k then max (snd s) (Suc (digits_val k)) else snd s))"
  by (simp add: arr_set_def plain_key_def)

text \<open>C19 (refinement): for every guild id whose key is neither \<^verbatim>\<open>length\<close>
  nor \<^verbatim>\<open>__proto__\<close>, \<^verbatim>\<open>getGuild\<close> on the Array computes what the map model
  \<open>GuildCache.getGuild\<close> computes: same result and, seen through the map of own
  entries, same cache. This holds also for keys the Array inherits, such as
  \<^verbatim>\<open>constructor\<close>: the inherited function has no \<^verbatim>\<open>lastUpdated\<close>, so
  the call fetches as on a miss.\<close>

theorem getGuild_arr_refines:
  assumes "plain_key (js_to_string (guildId opts))"
  shows "map_option (\<lambda>(s', r). (fst s', r)) (getGuild_arr rest s opts ta tb) =
    Some (getGuild rest (fst s) opts ta tb)"
  using assms arr_set_plain [OF assms]
  by (cases "cached_guild (fst s) (js_to_string (guildId opts)) ta"; cases "fetchGuild rest opts")
     (simp_all add: getGuild_arr_def getGuild_def Let_def arr_get_plain plain_key_def getGuild_resume_def)

lemma cache_guilds_arr_refines:
  "list_all (\<lambda>g. plain_key (guild_key g)) gs \<Longrightarrow>
   map_option (\<lambda>(s', e). (fst s', e)) (cache_guilds_arr s gs now) = Some (cache_guilds (fst s) gs now)"
proof (induction gs arbitrary: s)
  case Nil
  then show ?case by simp
next
  case (Cons g gs)
  show ?case
  proof (cases "get_prop g ''id''")
    case (Inl err)
    then show ?thesis by simp
  next
    case (Inr i)
    then have "guild_key g = js_to_string i"
      by (auto simp: get_prop_def guild_key_def split: if_splits)
    with Cons.prems have "plain_key (js_to_string i)" by simp
    with Inr show ?thesis
      using Cons.IH [of "(cache_store (fst s) (js_to_string i) g now,
          if is_array_index (js_to_string i) then max (snd s) (Suc (digits_val (js_to_string i))) else snd s)"]
        Cons.prems
      by (simp add: arr_set_plain)
  qed
qed

theorem getGuild_arr_refines_witness:
  "map_option (\<lambda>(s', r). (fst s', r))
     (getGuild_arr (\<lambda>_. Inr (JStr ''G'')) (Discord_new empty_opts, 0) \<lparr>guildId = JStr ''constructor'', userId = JUndefined, roleId = JUndefined, botToken = JStr ''tok''\<rparr> 0 1) =
   Some (getGuild (\<lambda>_. Inr (JStr ''G'')) (Discord_new empty_opts) \<lparr>guildId = JStr ''constructor'', userId = JUndefined, roleId = JUndefined, botToken = JStr ''tok''\<rparr> 0 1)"
  using getGuild_arr_refines [where opts = "\<lparr>guildId = JStr ''constructor'', userId = JUndefined, roleId = JUndefined, botToken = JStr ''tok''\<rparr>" and rest = "\<lambda>_. Inr (JStr ''G'')"
      and s = "(Discord_new empty_opts, 0)" and ta = 0 and tb = 1]
  by (simp add: plain_key_def)

text \<open>C20 (refinement): when no guild of the listed answer has the key
  \<^verbatim>\<open>length\<close> or \<^verbatim>\<open>__proto__\<close>, \<^verbatim>\<open>getAllGuilds\<close> on the Array computes what
  the map model computes.\<close>

theorem getAllGuilds_arr_refines:
  assumes "case rest (getAllGuilds_req opts) of Inl _ \<Rightarrow> True | Inr v \<Rightarrow> listed_plain v"
  shows "map_option (\<lambda>(s', r). (fst s', r)) (getAllGuilds_arr rest s opts now) =
    Some (getAllGuilds rest (fst s) opts now)"
proof (cases "rest (getAllGuilds_req opts)")
  case (Inl err)
  then show ?thesis by (simp add: getAllGuilds_arr_def getAllGuilds_def getAllGuilds_resume_def)
next
  case (Inr v)
  show ?thesis
  proof (cases "js_iterate v")
    case (Inl err)
    with Inr show ?thesis by (simp add: getAllGuilds_arr_def getAllGuilds_def getAllGuilds_resume_def)
  next
    case (Inr gs)
    with \<open>rest (getAllGuilds_req opts) = Inr v\<close> assms
    have "map_option (\<lambda>(s', e). (fst s', e)) (cache_guilds_arr s gs now) = Some (cache_guilds (fst s) gs now)"
      by (intro cache_guilds_arr_refines) (simp add: listed_plain_def)
    then obtain s' e where a: "cache_guilds_arr s gs now = Some (s', e)"
      and c: "cache_guilds (fst s) gs now = (fst s', e)"
      by (cases "cache_guilds_arr s gs now") auto
    with Inr \<open>rest (getAllGuilds_req opts) = Inr v\<close> show ?thesis
      by (cases e) (simp_all add: getAllGuilds_arr_def getAllGuilds_def getAllGuilds_resume_def)
  qed
qed

theorem getAllGuilds_arr_refines_witness:
  "map_option (\<lambda>(s', r). (fst s', r))
     (getAllGuilds_arr (\<lambda>_. Inr (JArr [JObj [(''id'', JStr ''5'')]])) (Discord_new empty_opts, 0) \<lparr>guildId = JStr ''1'', userId = JUndefined, roleId = JUndefined, botToken = JStr ''tok''\<rparr> 7) =
   Some (getAllGuilds (\<lambda>_. Inr (JArr [JObj [(''id'', JStr ''5'')]])) (Discord_new empty_opts) \<lparr>guildId = JStr ''1'', userId = JUndefined, roleId = JUndefined, botToken = JStr ''tok''\<rparr> 7)"
  using getAllGuilds_arr_refines [where rest = "\<lambda>_. Inr (JArr [JObj [(''id'', JStr ''5'')]])"
      and opts = "\<lparr>guildId = JStr ''1'', userId = JUndefined, roleId = JUndefined, botToken = JStr ''tok''\<rparr>" and s = "(Discord_new empty_opts, 0)" and now = 7]
  by (simp add: listed_plain_def plain_key_def guild_key_def)

text \<open>C21 (error): a guild whose id is \<^verbatim>\<open>"length"\<close> can never be cached: every
  \<^verbatim>\<open>getGuild\<close> for it sends the request, and when the request succeeds the
  write \<^verbatim>\<open>this.GuildCache["length"] = {...}\<close> throws a \<open>RangeError\<close>; the
  guild is lost and the cache is unchanged.\<close>

theorem getGuild_arr_length_key:
  assumes "js_to_string (guildId opts) = ''length''"
  shows "getGuild_arr rest s opts ta tb =
    Some (s, case fetchGuild rest opts of Inl err \<Rightarrow> Inl err | Inr g \<Rightarrow> Inl RangeError)"
  using assms
  by (cases "fetchGuild rest opts") (simp_all add: getGuild_arr_def arr_get_def cached_slot_def arr_set_def)

theorem getGuild_arr_length_key_witness:
  "getGuild_arr (\<lambda>_. Inr (JStr ''G'')) (Discord_new empty_opts, 0) \<lparr>guildId = JStr ''length'', userId = JUndefined, roleId = JUndefined, botToken = JStr ''tok''\<rparr> 0 1 =
   Some ((Discord_new empty_opts, 0), Inl RangeError)"
  using getGuild_arr_length_key [where opts = "\<lparr>guildId = JStr ''length'', userId = JUndefined, roleId = JUndefined, botToken = JStr ''tok''\<rparr>" and rest = "\<lambda>_. Inr (JStr ''G'')"
      and s = "(Discord_new empty_opts, 0)" and ta = 0 and tb = 1]
  by (simp add: fetchGuild_def)

end
