(* ===== verification/ArrayProto.thy ===== *)
theory ArrayProto
  imports ArrayStore
begin

text \<open>
  The Array \<^verbatim>\<open>GuildCache\<close> together with its prototype, which completes
  theory \<open>ArrayStore\<close> for the key \<^verbatim>\<open>__proto__\<close>. The assignment
  \<^verbatim>\<open>this.GuildCache["__proto__"] = {guild, lastUpdated}\<close> of lines 188-191
  (or 219-222) runs the setter \<^verbatim>\<open>Object.prototype.__proto__\<close>. Its
  argument is an object, so it makes that entry object the prototype of the
  array, and the array gets no own property.
  \<^item> The read \<^verbatim>\<open>this.GuildCache["__proto__"]\<close> returns the prototype: first
    \<^verbatim>\<open>Array.prototype\<close> (truthy, no \<^verbatim>\<open>lastUpdated\<close>, so the code fetches),
    later the entry object, which the code serves like any entry.
  \<^item> Once an entry object is the prototype, the array no longer inherits from
    \<^verbatim>\<open>Array.prototype\<close>: only the names of \<^verbatim>\<open>Object.prototype\<close> and the
    entry's own fields \<^verbatim>\<open>guild\<close> and \<^verbatim>\<open>lastUpdated\<close> are inherited. The key
    \<^verbatim>\<open>lastUpdated\<close> reads a number, which has no \<^verbatim>\<open>lastUpdated\<close>, so the code
    fetches. The key \<^verbatim>\<open>guild\<close> reads the stored guild value \<open>v\<close>. The code
    then serves \<open>v.guild\<close> when \<open>v\<close> is truthy and
    \<open>Date.now() - v.lastUpdated\<close> exceeds the timeout.
  \<^item> \<open>Date.now() - x\<close> converts \<open>x\<close> to a number (\<open>js_number_of\<close>).
    \<open>undefined\<close> and objects give \<open>NaN\<close>. \<open>null\<close> and booleans give
    \<open>0\<close>/\<open>1\<close>. An object with an own \<^verbatim>\<open>toString\<close> field throws a
    \<open>TypeError\<close>: a JSON value is never callable, and the inherited
    \<^verbatim>\<open>valueOf\<close> returns the object itself, so \<open>ToPrimitive\<close> finds no
    primitive. A string or an array would go through \<open>StringToNumber\<close>, whose
    result may be fractional; that case is outside the model (\<open>None\<close>).
  The state is the \<open>ArrayStore\<close> state and the prototype entry (\<open>None\<close>
  while the prototype is \<^verbatim>\<open>Array.prototype\<close>). Its abstraction files the
  prototype entry under the key \<^verbatim>\<open>__proto__\<close> of the map model.
\<close>

type_synonym proto_state = "arr_state \<times> cache_entry option"

text \<open>What \<^verbatim>\<open>this.GuildCache[k]\<close> evaluates to: a slot of \<open>ArrayStore\<close>, or
  a field value inherited from an entry object that is the prototype.\<close>

definition proto_get :: "proto_state \<Rightarrow> string \<Rightarrow> slot + jv" where
  "proto_get st k =
     (case snd st of
        None \<Rightarrow> Inl (arr_get (fst st) k)
      | Some pe \<Rightarrow>
          if k = ''length'' then Inl (LengthVal (snd (fst st)))
          else case GuildCache (fst (fst st)) k of
                 Some e \<Rightarrow> Inl (Entry e)
               | None \<Rightarrow>
                   if k = ''__proto__'' then Inl (Entry pe)
                   else if k = ''guild'' then Inr (guild pe)
                   else if k = ''lastUpdated'' then Inr (JNum (lastUpdated pe))
                   else if k \<in> set object_proto_names then Inl Builtin
                   else Inl Absent)"

text \<open>\<open>ToNumber\<close> of a JSON value, as the subtraction of line 178 applies it:
  \<open>Some (Inr None)\<close> is \<open>NaN\<close>.\<close>

fun js_number_of :: "jv \<Rightarrow> (js_error + int option) option" where
  "js_number_of (JNum n) = Some (Inr (Some n))"
| "js_number_of JNull = Some (Inr (Some 0))"
| "js_number_of (JBool b) = Some (Inr (Some (if b then 1 else 0)))"
| "js_number_of JUndefined = Some (Inr None)"
| "js_number_of JNaN = Some (Inr None)"
| "js_number_of (JObj fs) =
     (if ''toString'' \<in> set (map fst fs) then Some (Inl TypeError) else Some (Inr None))"
| "js_number_of (JStr s) = None"
| "js_number_of (JArr xs) = None"

text \<open>Lines 176-182 on an inherited value \<open>v\<close>.\<close>

definition cached_value :: "discord \<Rightarrow> jv \<Rightarrow> timestamp \<Rightarrow> (js_error + jv option) option" where
  "cached_value d v now =
     (if \<not> truthy v then Some (Inr None)
      else case js_number_of (prop_of v ''lastUpdated'') of
             None \<Rightarrow> None
           | Some (Inl err) \<Rightarrow> Some (Inl err)
           | Some (Inr None) \<Rightarrow> Some (Inr None)
           | Some (Inr (Some x)) \<Rightarrow>
               Some (Inr (if now - x > GuildCacheTimeout d then Some (prop_of v ''guild'') else None)))"

text \<open>Lines 188-191 and 219-222, the key \<^verbatim>\<open>__proto__\<close> included.\<close>

definition proto_set :: "proto_state \<Rightarrow> string \<Rightarrow> jv \<Rightarrow> timestamp \<Rightarrow> js_error + proto_state" where
  "proto_set st k g now =
     (if k = ''length'' then Inl RangeError
      else if k = ''__proto__'' then Inr (fst st, Some \<lparr>guild = g, lastUpdated = now\<rparr>)
      else Inr ((cache_store (fst (fst st)) k g now,
                 if is_array_index k then max (snd (fst st)) (Suc (digits_val k)) else snd (fst st)),
                snd st))"

definition getGuild_proto ::
  "rest_client \<Rightarrow> proto_state \<Rightarrow> call_opts \<Rightarrow> timestamp \<Rightarrow> timestamp \<Rightarrow> (proto_state \<times> rest_result) option" where
  "getGuild_proto rest st opts ta tb =
     (let k = js_to_string (guildId opts);
          fetch = (case fetchGuild rest opts of
                     Inl err \<Rightarrow> (st, Inl err)
                   | Inr g \<Rightarrow> (case proto_set st k g tb of
                                Inl err \<Rightarrow> (st, Inl err)
                              | Inr st' \<Rightarrow> (st', Inr g)))
      in case proto_get st k of
           Inl v \<Rightarrow> (case cached_slot (fst (fst st)) v ta of
                       Some g \<Rightarrow> Some (st, Inr g)
                     | None \<Rightarrow> Some fetch)
         | Inr v \<Rightarrow> (case cached_value (fst (fst st)) v ta of
                       None \<Rightarrow> None
                     | Some (Inl err) \<Rightarrow> Some (st, Inl err)
                     | Some (Inr (Some g)) \<Rightarrow> Some (st, Inr g)
                     | Some (Inr None) \<Rightarrow> Some fetch))"

fun cache_guilds_proto :: "proto_state \<Rightarrow> jv list \<Rightarrow> timestamp \<Rightarrow> proto_state \<times> js_error option" where
  "cache_guilds_proto st [] now = (st, None)"
| "cache_guilds_proto st (g # gs) now =
     (case get_prop g ''id'' of
        Inl err \<Rightarrow> (st, Some err)
      | Inr i \<Rightarrow>
          (case proto_set st (js_to_string i) g now of
             Inl err \<Rightarrow> (st, Some err)
           | Inr st' \<Rightarrow> cache_guilds_proto st' gs now))"

definition getAllGuilds_proto ::
  "rest_client \<Rightarrow> proto_state \<Rightarrow> call_opts \<Rightarrow> timestamp \<Rightarrow> proto_state \<times> rest_result" where
  "getAllGuilds_proto rest st opts now =
     (case rest (getAllGuilds_req opts) of
        Inl err \<Rightarrow> (st, Inl err)
      | Inr guilds \<Rightarrow>
          (case js_iterate guilds of
             Inl err \<Rightarrow> (st, Inl err)
           | Inr gs \<Rightarrow>
               (case cache_guilds_proto st gs now of
                  (st', None) \<Rightarrow> (st', Inr guilds)
                | (st', Some err) \<Rightarrow> (st', Inl err))))"

subsection \<open>Abstraction\<close>

text \<open>The map model sees the prototype entry as the entry of \<^verbatim>\<open>__proto__\<close>.\<close>

definition proto_abs :: "proto_state \<Rightarrow> discord" where
  "proto_abs st = (fst (fst st))\<lparr>GuildCache := (GuildCache (fst (fst st)))(''__proto__'' := snd st)\<rparr>"

text \<open>The code never creates an own property named \<^verbatim>\<open>__proto__\<close>.\<close>

definition proto_inv :: "proto_state \<Rightarrow> bool" where
  "proto_inv st \<longleftrightarrow> GuildCache (fst (fst st)) ''__proto__'' = None"

subsection \<open>Lemmas on the prototype model\<close>

text \<open>The abstraction commutes with the writes, and a read agrees with the
  map model's read, except for the inherited field \<^verbatim>\<open>guild\<close>. The
  invariant holds after every operation.\<close>

lemma proto_abs_None: "proto_inv (s, None) \<Longrightarrow> proto_abs (s, None) = fst s"
  by (simp add: proto_abs_def proto_inv_def fun_upd_idem)

lemma proto_abs_store:
  "k \<noteq> ''__proto__'' \<Longrightarrow> proto_abs ((cache_store d k g now, n), p) = cache_store (proto_abs ((d, m), p)) k g now"
  by (simp add: proto_abs_def cache_store_def fun_upd_twist)

lemma proto_abs_set_proto:
  "proto_abs (s, Some \<lparr>guild = g, lastUpdated = now\<rparr>) = cache_store (proto_abs (s, p)) ''__proto__'' g now"
  by (simp add: proto_abs_def cache_store_def)

lemma proto_set_abs:
  assumes "k \<noteq> ''length''"
  shows "\<exists>st'. proto_set st k g now = Inr st' \<and> proto_abs st' = cache_store (proto_abs st) k g now"
proof (cases "k = ''__proto__''")
  case True
  then show ?thesis
    using assms by (cases st) (simp add: proto_set_def proto_abs_set_proto [where p = "snd st"])
next
  case False
  then show ?thesis
    using assms by (cases st) (auto simp: proto_set_def proto_abs_store)
qed

lemma proto_set_inv:
  "proto_set st k g now = Inr st' \<Longrightarrow> proto_inv st \<Longrightarrow> proto_inv st'"
  by (auto simp: proto_set_def proto_inv_def cache_store_def split: if_splits)

lemma proto_read:
  assumes "proto_inv st" and "k \<noteq> ''length''"
    and "k = ''guild'' \<longrightarrow> snd st = None \<or> GuildCache (fst (fst st)) ''guild'' \<noteq> None"
  shows "case proto_get st k of
      Inl v \<Rightarrow> cached_slot (fst (fst st)) v ta = cached_guild (proto_abs st) k ta
    | Inr v \<Rightarrow> cached_value (fst (fst st)) v ta = Some (Inr None) \<and> cached_guild (proto_abs st) k ta = None"
proof (cases st)
  case (Pair s p)
  show ?thesis
  proof (cases p)
    case None
    with Pair assms show ?thesis
      by (simp add: proto_get_def arr_get_plain proto_abs_None)
  next
    case (Some pe)
    have abs_k: "\<And>k'. GuildCache (proto_abs (s, Some pe)) k' = (if k' = ''__proto__'' then Some pe else GuildCache (fst s) k')"
      by (simp add: proto_abs_def)
    have tmo: "GuildCacheTimeout (proto_abs (s, Some pe)) = GuildCacheTimeout (fst s)"
      by (simp add: proto_abs_def)
    show ?thesis
    proof (cases "GuildCache (fst s) k")
      case (Some e)
      moreover have "k \<noteq> ''__proto__''"
        using Some assms(1) Pair by (auto simp: proto_inv_def)
      ultimately show ?thesis
        using Pair \<open>p = Some pe\<close> assms(2)
        by (simp add: proto_get_def cached_slot_def cached_guild_def abs_k tmo)
    next
      case own: None
      have k: "k \<noteq> ''guild''"
        using assms(3) Pair \<open>p = Some pe\<close> own by auto
      show ?thesis
      proof (cases "k = ''__proto__''")
        case True
        with Pair \<open>p = Some pe\<close> own assms(1) show ?thesis
          by (simp add: proto_get_def cached_slot_def cached_guild_def abs_k tmo proto_inv_def)
      next
        case np: False
        show ?thesis
        proof (cases "k = ''lastUpdated''")
          case True
          with Pair \<open>p = Some pe\<close> own show ?thesis
            by (simp add: proto_get_def cached_value_def cached_guild_def abs_k)
        next
          case False
          with np k Pair \<open>p = Some pe\<close> own assms(2) show ?thesis
            by (simp add: proto_get_def cached_slot_def cached_guild_def abs_k)
        qed
      qed
    qed
  qed
qed

lemma proto_fetch_refines:
  assumes "k \<noteq> ''length''"
  shows "(\<lambda>(st', r). (proto_abs st', r))
      (case r of Inl err \<Rightarrow> (st, Inl err)
       | Inr g \<Rightarrow> (case proto_set st k g now of Inl err \<Rightarrow> (st, Inl err) | Inr st' \<Rightarrow> (st', Inr g))) =
    getGuild_resume (proto_abs st) k r now"
proof (cases r)
  case (Inr g)
  then obtain st' where "proto_set st k g now = Inr st'" "proto_abs st' = cache_store (proto_abs st) k g now"
    using proto_set_abs [OF assms] by blast
  with Inr show ?thesis by (simp add: getGuild_resume_def)
qed (simp add: getGuild_resume_def)

lemma cache_guilds_proto_refines:
  "list_all (\<lambda>g. guild_key g \<noteq> ''length'') gs \<Longrightarrow>
   (\<lambda>(st', e). (proto_abs st', e)) (cache_guilds_proto st gs now) = cache_guilds (proto_abs st) gs now"
proof (induction gs arbitrary: st)
  case Nil
  then show ?case by simp
next
  case (Cons g gs)
  show ?case
  proof (cases "get_prop g ''id''")
    case (Inl err)
    then show ?thesis by simp
  next
    case (Inr i)
    then have "guild_key g = js_to_string i"
      by (auto simp: get_prop_def guild_key_def split: if_splits)
    with Cons.prems obtain st' where "proto_set st (js_to_string i) g now = Inr st'"
      and "proto_abs st' = cache_store (proto_abs st) (js_to_string i) g now"
      using proto_set_abs [of "js_to_string i" st g now] by auto
    with Inr Cons.IH [of st'] Cons.prems show ?thesis by simp
  qed
qed

lemma getGuild_proto_inv:
  "proto_inv st \<Longrightarrow> getGuild_proto rest st opts ta tb = Some (st', r) \<Longrightarrow> proto_inv st'"
  unfolding getGuild_proto_def Let_def
  by (auto split: sum.splits option.splits dest: proto_set_inv)

lemma cache_guilds_proto_inv:
  "proto_inv st \<Longrightarrow> cache_guilds_proto st gs now = (st', e) \<Longrightarrow> proto_inv st'"
proof (induction gs arbitrary: st)
  case (Cons g gs)
  then show ?case
    by (cases "get_prop g ''id''"; cases "proto_set st (js_to_string (projr (get_prop g ''id''))) g now")
       (auto dest: proto_set_inv)
qed simp

lemma getAllGuilds_proto_inv:
  "proto_inv st \<Longrightarrow> getAllGuilds_proto rest st opts now = (st', r) \<Longrightarrow> proto_inv st'"
  unfolding getAllGuilds_proto_def
  by (auto split: sum.splits prod.splits option.splits intro: cache_guilds_proto_inv)

subsection \<open>Refinement\<close>

text \<open>C26 (refinement): on the Array whose prototype may be an entry object,
  \<^verbatim>\<open>getGuild\<close> computes what the map model computes on the abstraction,
  the key \<^verbatim>\<open>__proto__\<close> included, for every key other than
  \<^verbatim>\<open>length\<close>. The key \<^verbatim>\<open>guild\<close> is excluded only while it would be read
  from an entry object acting as the prototype.\<close>

theorem getGuild_proto_refines:
  assumes "proto_inv st" and "js_to_string (guildId opts) \<noteq> ''length''"
    and "js_to_string (guildId opts) = ''guild'' \<longrightarrow> snd st = None \<or> GuildCache (fst (fst st)) ''guild'' \<noteq> None"
  shows "map_option (\<lambda>(st', r). (proto_abs st', r)) (getGuild_proto rest st opts ta tb) =
    Some (getGuild rest (proto_abs st) opts ta tb)"
proof -
  define k where "k = js_to_string (guildId opts)"
  have R: "case proto_get st k of
      Inl v \<Rightarrow> cached_slot (fst (fst st)) v ta = cached_guild (proto_abs st) k ta
    | Inr v \<Rightarrow> cached_value (fst (fst st)) v ta = Some (Inr None) \<and> cached_guild (proto_abs st) k ta = None"
    using proto_read [OF assms(1)] assms(2,3) unfolding k_def by blast
  have F: "k \<noteq> ''length''" using assms(2) k_def by simp
  show ?thesis
  proof (cases "proto_get st k")
    case (Inl v)
    with R F show ?thesis
      by (cases "cached_guild (proto_abs st) k ta")
         (simp_all add: getGuild_proto_def getGuild_def Let_def proto_fetch_refines flip: k_def)
  next
    case (Inr v)
    with R F show ?thesis
      by (simp add: getGuild_proto_def getGuild_def Let_def proto_fetch_refines flip: k_def)
  qed
qed

theorem getGuild_proto_refines_witness:
  "map_option (\<lambda>(st', r). (proto_abs st', r))
     (getGuild_proto (\<lambda>_. Inr (JStr ''G'')) ((Discord_new empty_opts, 0), None)
       \<lparr>guildId = JStr ''__proto__'', userId = JUndefined, roleId = JUndefined, botToken = JStr ''tok''\<rparr> 0 1) =
   Some (getGuild (\<lambda>_. Inr (JStr ''G'')) (proto_abs ((Discord_new empty_opts, 0), None))
       \<lparr>guildId = JStr ''__proto__'', userId = JUndefined, roleId = JUndefined, botToken = JStr ''tok''\<rparr> 0 1)"
  using getGuild_proto_refines [where st = "((Discord_new empty_opts, 0), None)" and rest = "\<lambda>_. Inr (JStr ''G'')"
      and opts = "\<lparr>guildId = JStr ''__proto__'', userId = JUndefined, roleId = JUndefined, botToken = JStr ''tok''\<rparr>"
      and ta = 0 and tb = 1]
  by (simp add: proto_inv_def Discord_new_def)

text \<open>C27 (refinement): with the prototype modelled, \<^verbatim>\<open>getAllGuilds\<close> on
  the Array computes what the map model computes on the abstraction whenever
  no listed guild has the id \<^verbatim>\<open>length\<close>: a listed guild with id
  \<^verbatim>\<open>__proto__\<close> becomes the prototype and is seen as the map entry
  \<^verbatim>\<open>__proto__\<close>.\<close>

theorem getAllGuilds_proto_refines:
  assumes "case rest (getAllGuilds_req opts) of Inl _ \<Rightarrow> True
    | Inr v \<Rightarrow> (case js_iterate v of Inl _ \<Rightarrow> True | Inr gs \<Rightarrow> list_all (\<lambda>g. guild_key g \<noteq> ''length'') gs)"
  shows "(\<lambda>(st', r). (proto_abs st', r)) (getAllGuilds_proto rest st opts now) = getAllGuilds rest (proto_abs st) opts now"
proof (cases "rest (getAllGuilds_req opts)")
  case (Inl err)
  then show ?thesis by (simp add: getAllGuilds_proto_def getAllGuilds_def getAllGuilds_resume_def)
next
  case (Inr v)
  show ?thesis
  proof (cases "js_iterate v")
    case (Inl err)
    with Inr show ?thesis by (simp add: getAllGuilds_proto_def getAllGuilds_def getAllGuilds_resume_def)
  next
    case (Inr gs)
    with \<open>rest (getAllGuilds_req opts) = Inr v\<close> assms
    have c: "(\<lambda>(st', e). (proto_abs st', e)) (cache_guilds_proto st gs now) = cache_guilds (proto_abs st) gs now"
      by (intro cache_guilds_proto_refines) simp
    obtain st' e where a: "cache_guilds_proto st gs now = (st', e)" by fastforce
    with c have "cache_guilds (proto_abs st) gs now = (proto_abs st', e)" by simp
    with a Inr \<open>rest (getAllGuilds_req opts) = Inr v\<close> show ?thesis
      by (cases e) (simp_all add: getAllGuilds_proto_def getAllGuilds_def getAllGuilds_resume_def)
  qed
qed

theorem getAllGuilds_proto_refines_witness:
  "(\<lambda>(st', r). (proto_abs st', r))
     (getAllGuilds_proto (\<lambda>_. Inr (JArr [JObj [(''id'', JStr ''__proto__'')], JObj [(''id'', JStr ''7'')]]))
        ((Discord_new empty_opts, 0), None) \<lparr>guildId = JUndefined, userId = JUndefined, roleId = JUndefined, botToken = JStr ''tok''\<rparr> 3) =
   getAllGuilds (\<lambda>_. Inr (JArr [JObj [(''id'', JStr ''__proto__'')], JObj [(''id'', JStr ''7'')]]))
     (proto_abs ((Discord_new empty_opts, 0), None)) \<lparr>guildId = JUndefined, userId = JUndefined, roleId = JUndefined, botToken = JStr ''tok''\<rparr> 3"
  by (rule getAllGuilds_proto_refines) (simp add: guild_key_def)

text \<open>C28 (error): the one exception to C26. Once an entry object is the
  prototype and the array has no own entry \<^verbatim>\<open>guild\<close>, a
  \<^verbatim>\<open>getGuild\<close> with guild id \<^verbatim>\<open>"guild"\<close> reads the stored guild value
  \<open>v\<close> through the prototype. When \<open>v\<close> has its own numeric
  \<^verbatim>\<open>lastUpdated\<close> field older than the timeout, the code returns
  \<open>v.guild\<close> and sends no request, with the state unchanged, while the map
  model, which has no entry \<^verbatim>\<open>guild\<close>, fetches the guild.\<close>

theorem getGuild_proto_inherited_guild:
  assumes "snd st = Some pe" and "GuildCache (fst (fst st)) ''guild'' = None"
    and "guild pe = JObj fs" and "map_of fs ''lastUpdated'' = Some (JNum x)"
    and "GuildCacheTimeout (fst (fst st)) < ta - x"
    and "js_to_string (guildId opts) = ''guild''"
  shows "getGuild_proto rest st opts ta tb = Some (st, Inr (prop_of (guild pe) ''guild''))
    \<and> getGuild rest (proto_abs st) opts ta tb = getGuild_resume (proto_abs st) ''guild'' (fetchGuild rest opts) tb"
proof -
  have "proto_get st ''guild'' = Inr (guild pe)"
    using assms(1,2) by (simp add: proto_get_def)
  moreover have "cached_value (fst (fst st)) (guild pe) ta = Some (Inr (Some (prop_of (guild pe) ''guild'')))"
    using assms(3-5) by (simp add: cached_value_def)
  moreover have "cached_guild (proto_abs st) ''guild'' ta = None"
    using assms(2) by (simp add: proto_abs_def cached_guild_def)
  ultimately show ?thesis
    using assms(6) by (simp add: getGuild_proto_def getGuild_def Let_def)
qed

theorem getGuild_proto_inherited_guild_witness:
  "getGuild_proto (\<lambda>_. Inr (JStr ''Y''))
     ((Discord_new empty_opts, 0),
      Some \<lparr>guild = JObj [(''lastUpdated'', JNum 0), (''guild'', JStr ''X'')], lastUpdated = 5\<rparr>)
     \<lparr>guildId = JStr ''guild'', userId = JUndefined, roleId = JUndefined, botToken = JStr ''tok''\<rparr> 10001 10002 =
   Some (((Discord_new empty_opts, 0),
      Some \<lparr>guild = JObj [(''lastUpdated'', JNum 0), (''guild'', JStr ''X'')], lastUpdated = 5\<rparr>), Inr (JStr ''X''))"
  using getGuild_proto_inherited_guild [where st = "((Discord_new empty_opts, 0),
      Some \<lparr>guild = JObj [(''lastUpdated'', JNum 0), (''guild'', JStr ''X'')], lastUpdated = 5\<rparr>)"
    and pe = "\<lparr>guild = JObj [(''lastUpdated'', JNum 0), (''guild'', JStr ''X'')], lastUpdated = 5\<rparr>"
    and fs = "[(''lastUpdated'', JNum 0), (''guild'', JStr ''X'')]" and x = 0 and ta = 10001 and tb = 10002
    and opts = "\<lparr>guildId = JStr ''guild'', userId = JUndefined, roleId = JUndefined, botToken = JStr ''tok''\<rparr>" and rest = "\<lambda>_. Inr (JStr ''Y'')"]
  by (simp add: Discord_new_def)

end
