(* ===== verification/UriEncode.thy ===== *)
theory UriEncode
  imports JsObject
begin

text \<open>
  \<^verbatim>\<open>Discord._encode\<close> (\<^verbatim>\<open>src/index.js\<close> lines 64-75): the URL-query encoder kept
  for the OAuth2 flows. It walks \<^verbatim>\<open>Object.entries(obj)\<close>, skips every falsy
  value, and appends \<^verbatim>\<open>&key=value\<close> with both parts passed through
  \<^verbatim>\<open>encodeURIComponent\<close>; \<^verbatim>\<open>substring(1)\<close> drops the leading ampersand.
  The runtime functions it calls are modelled too:
  \<^item> \<^verbatim>\<open>encodeURIComponent\<close> on strings whose code units are below 256 (an
    Isabelle \<open>char\<close> is read as the code point U+0000..U+00FF): unreserved
    characters are kept, every other one is written as the \<open>%XX\<close> escapes of
    its UTF-8 bytes, in upper-case hexadecimal;
  \<^item> \<^verbatim>\<open>Object.entries\<close> on an ordinary object, from theory \<open>JsObject\<close>.
  A decoder for the encoder's output (\<open>uri_decode\<close>, \<open>parse_query\<close>) is the
  specification side of the round-trip theorems; it is not code of the
  repository.
\<close>

subsection \<open>\<^verbatim>\<open>encodeURIComponent\<close>\<close>

definition uri_unreserved :: string where
  "uri_unreserved =
     ''ABCDEFGHIJKLMNOPQRSTUVWXYZabcdefghijklmnopqrstuvwxyz0123456789-_.!~*'()''"

definition hex_digits :: string where
  "hex_digits = ''0123456789ABCDEF''"

definition pct :: "nat \<Rightarrow> string" where
  "pct b = [CHR ''%'', hex_digits ! (b div 16), hex_digits ! (b mod 16)]"

definition encode_char :: "char \<Rightarrow> string" where
  "encode_char c =
     (let n = of_char c in
      if c \<in> set uri_unreserved then [c]
      else if n < 128 then pct n
      else pct (192 + n div 64) @ pct (128 + n mod 64))"

definition encodeURIComponent :: "string \<Rightarrow> string" where
  "encodeURIComponent s = concat (map encode_char s)"

subsection \<open>\<^verbatim>\<open>_encode\<close>\<close>

text \<open>The loop of lines 67-72, with the string built so far as accumulator.\<close>

fun encode_entries :: "string \<Rightarrow> (string \<times> jv) list \<Rightarrow> string" where
  "encode_entries acc [] = acc"
| "encode_entries acc ((key, value) # es) =
     (if \<not> truthy value then encode_entries acc es
      else encode_entries
             (acc @ CHR ''&'' # encodeURIComponent key @ CHR ''='' # encodeURIComponent (js_to_string value))
             es)"

definition Discord_encode :: "(string \<times> jv) list \<Rightarrow> string" where
  "Discord_encode obj = drop 1 (encode_entries [] (object_entries obj))"

subsection \<open>The decoder the round trip is stated against\<close>

fun idx_of :: "char \<Rightarrow> string \<Rightarrow> nat option" where
  "idx_of c [] = None"
| "idx_of c (x # xs) = (if x = c then Some 0 else map_option Suc (idx_of c xs))"

definition hex_byte :: "char \<Rightarrow> char \<Rightarrow> nat option" where
  "hex_byte h l =
     (case (idx_of h hex_digits, idx_of l hex_digits) of
        (Some a, Some b) \<Rightarrow> Some (16 * a + b)
      | _ \<Rightarrow> None)"

fun uri_decode :: "string \<Rightarrow> string option" where
  "uri_decode [] = Some []"
| "uri_decode (CHR ''%'' # h # l # rest) =
     (case hex_byte h l of
        None \<Rightarrow> None
      | Some b \<Rightarrow>
          if b < 128 then map_option (Cons (char_of b)) (uri_decode rest)
          else (case rest of
                  CHR ''%'' # h2 # l2 # rest' \<Rightarrow>
                    (case hex_byte h2 l2 of
                       Some b2 \<Rightarrow>
                         if (b = 194 \<or> b = 195) \<and> 128 \<le> b2 \<and> b2 < 192
                         then map_option (Cons (char_of ((b - 192) * 64 + (b2 - 128)))) (uri_decode rest')
                         else None
                     | None \<Rightarrow> None)
                | _ \<Rightarrow> None))"
| "uri_decode (c # rest) =
     (if c = CHR ''%'' then None else map_option (Cons c) (uri_decode rest))"

definition parse_pair :: "string \<Rightarrow> (string \<times> string) option" where
  "parse_pair p =
     (case split_on CHR ''='' p of
        [k, v] \<Rightarrow> (case (uri_decode k, uri_decode v) of
                    (Some k', Some v') \<Rightarrow> Some (k', v')
                  | _ \<Rightarrow> None)
      | _ \<Rightarrow> None)"

definition query_seg :: "string \<times> jv \<Rightarrow> string" where
  "query_seg kv = encodeURIComponent (fst kv) @ CHR ''='' # encodeURIComponent (js_to_string (snd kv))"

definition parse_query :: "string \<Rightarrow> (string \<times> string) list option" where
  "parse_query q = (if q = [] then Some [] else those (map parse_pair (split_on CHR ''&'' q)))"

subsection \<open>Decoding lemmas\<close>

lemma idx_of_nth: "distinct xs \<Longrightarrow> i < length xs \<Longrightarrow> idx_of (xs ! i) xs = Some i"
proof (induction xs arbitrary: i)
  case Nil
  then show ?case by simp
next
  case (Cons x xs)
  then show ?case
    by (cases i) (auto simp: nth_mem)
qed

lemma hex_byte_pct:
  assumes "b < 256"
  shows "hex_byte (hex_digits ! (b div 16)) (hex_digits ! (b mod 16)) = Some b"
proof -
  have d: "distinct hex_digits" and l: "length hex_digits = 16"
    by (simp_all add: hex_digits_def)
  have "b div 16 < 16" using assms by simp
  then show ?thesis
    using idx_of_nth [OF d] l by (simp add: hex_byte_def)
qed

lemma uri_decode_plain:
  "c \<noteq> CHR ''%'' \<Longrightarrow> uri_decode (c # t) = map_option (Cons c) (uri_decode t)"
  by (cases "c # t" rule: uri_decode.cases) auto

lemma uri_decode_encode_char:
  "uri_decode (encode_char c @ t) = map_option (Cons c) (uri_decode t)"
proof -
  let ?n = "of_char c :: nat"
  have lt: "?n < 256" by simp
  show ?thesis
  proof (cases "c \<in> set uri_unreserved")
    case True
    then have "c \<noteq> CHR ''%''" by (auto simp: uri_unreserved_def)
    with True show ?thesis by (simp add: encode_char_def uri_decode_plain)
  next
    case u: False
    show ?thesis
    proof (cases "?n < 128")
      case True
      with u show ?thesis
        by (simp add: encode_char_def pct_def hex_byte_pct Let_def)
    next
      case False
      have q4: "?n div 64 < 4"
        using lt by (simp add: div_less_iff_less_mult)
      have q2: "2 \<le> ?n div 64"
        using False by (simp add: less_eq_div_iff_mult_less_eq)
      have hi: "192 + ?n div 64 < 256" "128 + ?n mod 64 < 256"
        using q4 by simp_all
      have lead: "192 + ?n div 64 = 194 \<or> 192 + ?n div 64 = 195"
        using q2 q4 by linarith
      have val: "(192 + ?n div 64 - 192) * 64 + (128 + ?n mod 64 - 128) = ?n"
        by simp
      from u False show ?thesis
        using hex_byte_pct [OF hi(1)] hex_byte_pct [OF hi(2)] lead val
        by (simp add: encode_char_def pct_def Let_def del: div_mult_mod_eq)
    qed
  qed
qed

lemma uri_decode_encode_append:
  "uri_decode (encodeURIComponent s @ t) = map_option ((@) s) (uri_decode t)"
  by (induction s) (simp_all add: encodeURIComponent_def uri_decode_encode_char option.map_comp comp_def option.map_ident)

lemma pct_alphabet:
  assumes "b < 256"
  shows "set (pct b) \<subseteq> insert CHR ''%'' (set hex_digits)"
proof -
  have "b div 16 < length hex_digits" "b mod 16 < length hex_digits"
    using assms by (simp_all add: hex_digits_def)
  then show ?thesis by (auto simp: pct_def)
qed

lemma encode_char_alphabet:
  "set (encode_char c) \<subseteq> set uri_unreserved \<union> insert CHR ''%'' (set hex_digits)"
proof -
  have lt: "(of_char c :: nat) < 256" by simp
  then have "(of_char c :: nat) div 64 < 4"
    by (simp add: div_less_iff_less_mult)
  then have "192 + (of_char c :: nat) div 64 < 256" "128 + (of_char c :: nat) mod 64 < 256"
    by simp_all
  with lt show ?thesis
    using pct_alphabet [of "of_char c"] pct_alphabet [of "192 + of_char c div 64"]
      pct_alphabet [of "128 + of_char c mod 64"]
    by (auto simp: encode_char_def Let_def)
qed

lemma encodeURIComponent_alphabet:
  "set (encodeURIComponent s) \<subseteq> set uri_unreserved \<union> insert CHR ''%'' (set hex_digits)"
  using encode_char_alphabet by (auto simp: encodeURIComponent_def)

lemma separators_not_encoded:
  "CHR ''&'' \<notin> set (encodeURIComponent s) \<and> CHR ''='' \<notin> set (encodeURIComponent s)"
proof -
  have "CHR ''&'' \<notin> set uri_unreserved \<union> insert CHR ''%'' (set hex_digits)"
    and "CHR ''='' \<notin> set uri_unreserved \<union> insert CHR ''%'' (set hex_digits)"
    by (simp_all add: uri_unreserved_def hex_digits_def)
  with encodeURIComponent_alphabet [of s] show ?thesis by blast
qed

lemma encode_entries_eq:
  "encode_entries acc es = acc @ concat (map (\<lambda>kv. CHR ''&'' # query_seg kv) (filter (\<lambda>kv. truthy (snd kv)) es))"
  by (induction acc es rule: encode_entries.induct) (simp_all add: query_seg_def)

lemma split_on_concat:
  "\<forall>x \<in> set (s # ss). c \<notin> set x \<Longrightarrow> split_on c (s @ concat (map (Cons c) ss)) = s # ss"
  by (induction ss arbitrary: s) (simp_all add: append_assoc [symmetric] del: append_assoc)

lemma parse_pair_seg: "parse_pair (query_seg kv) = Some (fst kv, js_to_string (snd kv))"
  using separators_not_encoded [of "fst kv"] separators_not_encoded [of "js_to_string (snd kv)"]
    uri_decode_encode_append [of _ "[]"]
  by (simp add: parse_pair_def query_seg_def)

lemma those_map_Some: "those (map (\<lambda>x. Some (f x)) xs) = Some (map f xs)"
  by (induction xs) simp_all

subsection \<open>Properties of the encoder\<close>

text \<open>C13 (roundtrip): splitting the output of \<^verbatim>\<open>_encode\<close> at \<open>&\<close> and
  \<open>=\<close> and decoding each part gives back exactly the truthy entries of the
  object, in \<^verbatim>\<open>Object.entries\<close> order, each value as \<open>String(value)\<close>; every
  falsy value (empty string, zero, \<open>NaN\<close>, \<open>false\<close>, \<open>null\<close>,
  \<open>undefined\<close>) is dropped.\<close>

theorem Discord_encode_roundtrip:
  "parse_query (Discord_encode obj) =
   Some (map (\<lambda>kv. (fst kv, js_to_string (snd kv))) (filter (\<lambda>kv. truthy (snd kv)) (object_entries obj)))"
proof (cases "filter (\<lambda>kv. truthy (snd kv)) (object_entries obj)")
  case Nil
  then show ?thesis
    by (simp add: Discord_encode_def encode_entries_eq parse_query_def)
next
  case (Cons kv kvs)
  have segs: "\<forall>x \<in> set (map query_seg (kv # kvs)). CHR ''&'' \<notin> set x"
    using separators_not_encoded by (auto simp: query_seg_def)
  have "Discord_encode obj = query_seg kv @ concat (map (Cons CHR ''&'') (map query_seg kvs))"
    using Cons by (simp add: Discord_encode_def encode_entries_eq map_concat comp_def)
  moreover have "query_seg kv \<noteq> []"
    by (simp add: query_seg_def)
  ultimately have "parse_query (Discord_encode obj) = those (map parse_pair (map query_seg (kv # kvs)))"
    using segs split_on_concat [of "query_seg kv" "map query_seg kvs" "CHR ''&''"]
    by (simp add: parse_query_def)
  also have "\<dots> = Some (map (\<lambda>kv. (fst kv, js_to_string (snd kv))) (kv # kvs))"
    by (simp add: comp_def parse_pair_seg those_map_Some)
  finally show ?thesis
    using Cons by (simp add: comp_def)
qed

text \<open>C25 (equivalence): the accumulator loop of \<^verbatim>\<open>_encode\<close> with its final
  \<^verbatim>\<open>substring(1)\<close> is the plain definition of a query string: the encoded
  \<open>key=value\<close> segments of the truthy entries, in \<^verbatim>\<open>Object.entries\<close> order,
  joined by \<open>&\<close>. In particular \<^verbatim>\<open>substring(1)\<close> removes exactly the leading
  separator, and an object with no truthy value gives the empty string.\<close>

theorem Discord_encode_join:
  "Discord_encode obj =
   join_sep CHR ''&'' (map query_seg (filter (\<lambda>kv. truthy (snd kv)) (object_entries obj)))"
proof -
  let ?xs = "filter (\<lambda>kv. truthy (snd kv)) (object_entries obj)"
  have "Discord_encode obj = drop 1 (concat (map (Cons CHR ''&'') (map query_seg ?xs)))"
    by (simp only: Discord_encode_def encode_entries_eq append_Nil map_map comp_def)
  then show ?thesis by (simp only: join_sep_drop)
qed

end
