(* ===== verification/LoadEndpoints.thy ===== *)
theory LoadEndpoints
  imports JsObject Facade "HOL-Library.While_Combinator"
begin

text \<open>
  \<^verbatim>\<open>loadEndpoints\<close> (\<^verbatim>\<open>src/index.js\<close> lines 24-32), run once when the module
  is loaded: for \<open>i\<close> from \<open>0\<close> while \<open>i < Object.keys(endpoints).length\<close>,
  it takes the key \<open>k = Object.keys(endpoints)[i]\<close> and evaluates the source
  text \<^verbatim>\<open>global.${k} = endpoints['${k}']\<close> with \<^verbatim>\<open>eval\<close>; then it logs
  \<^verbatim>\<open>Discord endpoints loaded.\<close>. The facade's methods call the endpoint
  templates (\<^verbatim>\<open>GUILD(...)\<close>, ...) as globals installed by this loop.

  The realm is the global object (a map from names to values, over any value
  type \<open>'v\<close>) and the console output. The loop is kept as a loop
  (\<open>while_option\<close>) over the index and the realm. What \<^verbatim>\<open>eval\<close> does with the
  generated text depends on the key, and the model is exact for keys made of
  ASCII identifier characters (\<open>A-Z a-z 0-9 _ $\<close>), except the four names the
  loop itself reads (\<open>loop_global\<close>):
  \<^item> an identifier name (not starting with a digit) assigns the property of
    the global object, except that the module is strict code, so an assignment
    to the read-only globals \<^verbatim>\<open>undefined\<close>, \<^verbatim>\<open>NaN\<close>, \<^verbatim>\<open>Infinity\<close> throws a
    \<open>TypeError\<close>; \<^verbatim>\<open>__proto__\<close> would set the prototype of the global object
    and is left outside the model, as are \<^verbatim>\<open>Object\<close>, \<^verbatim>\<open>eval\<close>,
    \<^verbatim>\<open>global\<close> and \<^verbatim>\<open>console\<close>;
  \<^item> an empty key, or one starting with a digit (\<^verbatim>\<open>global.2fa\<close> lexes as
    \<^verbatim>\<open>global\<close> followed by the number \<^verbatim>\<open>.2\<close>), is a \<open>SyntaxError\<close>;
  \<^item> any other key (one holding \<^verbatim>\<open>.\<close>, \<^verbatim>\<open>[\<close>, a quote, a space, a non-ASCII
    letter, ...) makes \<^verbatim>\<open>eval\<close> run other code: the state \<open>Unmodelled\<close>.
  An exception leaves the loop and the module load with the globals installed
  so far and nothing logged.
\<close>

record 'v realm =
  globals :: "string \<rightharpoonup> 'v"
  console :: "string list"

definition ident_start :: "char \<Rightarrow> bool" where
  "ident_start c \<longleftrightarrow> c \<in> set ''ABCDEFGHIJKLMNOPQRSTUVWXYZabcdefghijklmnopqrstuvwxyz_$''"

definition ident_part :: "char \<Rightarrow> bool" where
  "ident_part c \<longleftrightarrow> ident_start c \<or> is_digit c"

definition ident_name :: "string \<Rightarrow> bool" where
  "ident_name k \<longleftrightarrow> k \<noteq> [] \<and> ident_start (hd k) \<and> list_all ident_part k"

definition readonly_global :: "string \<Rightarrow> bool" where
  "readonly_global k \<longleftrightarrow> k \<in> set [''undefined'', ''NaN'', ''Infinity'']"

text \<open>The globals the loop itself reads on every step or after it:
  \<^verbatim>\<open>Object\<close> (the test and the key of lines 26-27), \<^verbatim>\<open>eval\<close> (line 28),
  \<^verbatim>\<open>global\<close> (in the evaluated text) and \<^verbatim>\<open>console\<close> (line 30).
  Assigning one of them replaces the binding the loop then uses with an
  endpoint value, and what happens next depends on that value (a call of a
  non-function throws a \<open>TypeError\<close>, a function is called in place of the
  builtin): the step is outside the model.\<close>

definition loop_global :: "string \<Rightarrow> bool" where
  "loop_global k \<longleftrightarrow> k \<in> set [''Object'', ''eval'', ''global'', ''console'']"

text \<open>Line 28: \<^verbatim>\<open>eval(`global.${k} = endpoints['${k}']`)\<close>.\<close>

definition eval_install :: "(string \<times> 'v) list \<Rightarrow> string \<Rightarrow> 'v realm \<Rightarrow> (js_error + 'v realm) option" where
  "eval_install endpoints k r =
     (if ident_name k then
        (if k = ''__proto__'' \<or> loop_global k then None
         else if readonly_global k then Some (Inl TypeError)
         else Some (Inr (r\<lparr>globals := (globals r)(k := map_of endpoints k)\<rparr>)))
      else if list_all ident_part k then Some (Inl SyntaxError)
      else None)"

datatype 'v load_state = Loading nat "'v realm" | Threw js_error "'v realm" | Unmodelled

text \<open>Lines 26-29: the loop test and the loop body.\<close>

definition load_guard :: "(string \<times> 'v) list \<Rightarrow> 'v load_state \<Rightarrow> bool" where
  "load_guard endpoints s =
     (case s of Loading i r \<Rightarrow> i < length (object_keys endpoints) | _ \<Rightarrow> False)"

definition load_body :: "(string \<times> 'v) list \<Rightarrow> 'v load_state \<Rightarrow> 'v load_state" where
  "load_body endpoints s =
     (case s of
        Loading i r \<Rightarrow>
          (case eval_install endpoints (object_keys endpoints ! i) r of
             Some (Inr r') \<Rightarrow> Loading (Suc i) r'
           | Some (Inl e) \<Rightarrow> Threw e r
           | None \<Rightarrow> Unmodelled)
      | _ \<Rightarrow> s)"

definition load_loop :: "(string \<times> 'v) list \<Rightarrow> 'v realm \<Rightarrow> 'v load_state option" where
  "load_loop endpoints r = while_option (load_guard endpoints) (load_body endpoints) (Loading 0 r)"

definition loaded_msg :: string where
  "loaded_msg = ''Discord endpoints loaded.''"

text \<open>The whole function: the realm after the call, with the exception that
  leaves it if one does; \<open>None\<close> when a key is outside the model.\<close>

definition loadEndpoints :: "(string \<times> 'v) list \<Rightarrow> 'v realm \<Rightarrow> (js_error option \<times> 'v realm) option" where
  "loadEndpoints endpoints r =
     (case load_loop endpoints r of
        Some (Loading i r') \<Rightarrow> Some (None, r'\<lparr>console := console r' @ [loaded_msg]\<rparr>)
      | Some (Threw e r') \<Rightarrow> Some (Some e, r')
      | _ \<Rightarrow> None)"

text \<open>The keys whose step is a plain assignment of a global property.\<close>

definition installable :: "string \<Rightarrow> bool" where
  "installable k \<longleftrightarrow> ident_name k \<and> k \<noteq> ''__proto__'' \<and> \<not> readonly_global k \<and> \<not> loop_global k"

definition installed :: "(string \<times> 'v) list \<Rightarrow> nat \<Rightarrow> (string \<rightharpoonup> 'v) \<Rightarrow> string \<rightharpoonup> 'v" where
  "installed endpoints i g =
     foldl (\<lambda>g k. g(k := map_of endpoints k)) g (take i (object_keys endpoints))"

subsection \<open>Running the loop\<close>

lemma eval_install_ok:
  "installable k \<Longrightarrow> eval_install endpoints k r = Some (Inr (r\<lparr>globals := (globals r)(k := map_of endpoints k)\<rparr>))"
  by (simp add: eval_install_def installable_def)

lemma installed_Suc:
  "i < length (object_keys endpoints) \<Longrightarrow>
   installed endpoints (Suc i) g =
     (installed endpoints i g)(object_keys endpoints ! i := map_of endpoints (object_keys endpoints ! i))"
  by (simp add: installed_def take_Suc_conv_app_nth)

lemma load_loop_prefix:
  assumes "i \<le> length (object_keys endpoints)"
    and "list_all installable (take i (object_keys endpoints))"
  shows "load_loop endpoints r =
    while_option (load_guard endpoints) (load_body endpoints)
      (Loading i (r\<lparr>globals := installed endpoints i (globals r)\<rparr>))"
  using assms
proof (induction i)
  case 0
  then show ?case by (simp add: load_loop_def installed_def)
next
  case (Suc i)
  let ?ks = "object_keys endpoints"
  have lt: "i < length ?ks" using Suc.prems(1) by simp
  have pre: "list_all installable (take i ?ks)" and k: "installable (?ks ! i)"
    using Suc.prems(2) lt by (simp_all add: take_Suc_conv_app_nth)
  have "load_loop endpoints r =
      while_option (load_guard endpoints) (load_body endpoints)
        (Loading i (r\<lparr>globals := installed endpoints i (globals r)\<rparr>))"
    using Suc.IH lt pre by simp
  also have "\<dots> = while_option (load_guard endpoints) (load_body endpoints)
        (Loading (Suc i) (r\<lparr>globals := installed endpoints (Suc i) (globals r)\<rparr>))"
    using lt k by (subst while_option_unfold) (simp add: load_guard_def load_body_def eval_install_ok installed_Suc)
  finally show ?case .
qed

lemma installed_all:
  "installed endpoints (length (object_keys endpoints)) g = g ++ map_of endpoints"
proof -
  have gen: "set ks \<subseteq> dom (map_of endpoints) \<Longrightarrow>
      foldl (\<lambda>g k. g(k := map_of endpoints k)) g ks = g ++ (map_of endpoints |` set ks)" for ks g
  proof (induction ks arbitrary: g)
    case Nil
    then show ?case by simp
  next
    case (Cons k ks)
    then show ?case
      by (auto simp: fun_eq_iff map_add_def restrict_map_def split: option.splits)
  qed
  have "set (object_keys endpoints) = dom (map_of endpoints)"
    by (simp add: dom_map_of_conv_image_fst)
  moreover have "map_of endpoints |` dom (map_of endpoints) = map_of endpoints"
    by (rule ext) (simp add: restrict_map_def domIff)
  ultimately show ?thesis
    by (simp add: installed_def gen)
qed

lemma load_loop_complete:
  assumes "list_all installable (map fst endpoints)"
  shows "load_loop endpoints r =
    Some (Loading (length (object_keys endpoints)) (r\<lparr>globals := globals r ++ map_of endpoints\<rparr>))"
proof -
  have "list_all installable (take (length (object_keys endpoints)) (object_keys endpoints))"
    using assms by (simp add: list_all_iff)
  from load_loop_prefix [OF order_refl this] show ?thesis
    by (subst (asm) while_option_unfold) (simp add: load_guard_def installed_all)
qed

lemma load_loop_threw:
  assumes "i < length (object_keys endpoints)"
    and "list_all installable (take i (object_keys endpoints))"
    and "eval_install endpoints (object_keys endpoints ! i) (r\<lparr>globals := installed endpoints i (globals r)\<rparr>) = Some (Inl e)"
  shows "load_loop endpoints r = Some (Threw e (r\<lparr>globals := installed endpoints i (globals r)\<rparr>))"
  using load_loop_prefix [OF less_imp_le [OF assms(1)] assms(2)] assms(1,3)
  by (simp add: while_option_unfold [of _ _ "Loading i _"] while_option_unfold [of _ _ "Threw _ _"]
      load_guard_def load_body_def)

lemma load_loop_stops_at:
  assumes "i < length (object_keys endpoints)"
    and "list_all installable (take i (object_keys endpoints))"
    and "eval_install endpoints (object_keys endpoints ! i) (r\<lparr>globals := installed endpoints i (globals r)\<rparr>) = Some (Inl e)"
  shows "loadEndpoints endpoints r = Some (Some e, r\<lparr>globals := installed endpoints i (globals r)\<rparr>)"
  using load_loop_threw [OF assms] by (simp add: loadEndpoints_def)

lemma digit_not_ident_start: "is_digit c \<Longrightarrow> \<not> ident_start c"
  by (auto simp: is_digit_def ident_start_def)

lemma array_index_syntax:
  "is_array_index k \<Longrightarrow> \<not> ident_name k \<and> list_all ident_part k"
  by (cases k) (auto simp: is_array_index_def ident_name_def ident_part_def list_all_iff
      dest: digit_not_ident_start)

text \<open>A module with an array-index key throws at the first step.\<close>

lemma load_loop_index_key:
  assumes "k \<in> set (map fst endpoints)" and "is_array_index k"
  shows "load_loop endpoints r = Some (Threw SyntaxError r)"
proof -
  from object_keys_index_first [OF assms]
  have ne: "0 < length (object_keys endpoints)" and ix: "is_array_index (object_keys endpoints ! 0)"
    by (auto simp flip: hd_conv_nth)
  from array_index_syntax [OF ix] have "eval_install endpoints (object_keys endpoints ! 0)
      (r\<lparr>globals := installed endpoints 0 (globals r)\<rparr>) = Some (Inl SyntaxError)"
    by (simp add: eval_install_def)
  from load_loop_threw [OF ne _ this] show ?thesis
    by (simp add: installed_def)
qed

subsection \<open>Properties of \<^verbatim>\<open>loadEndpoints\<close>\<close>

text \<open>C15 (termination): the loop of \<^verbatim>\<open>loadEndpoints\<close> stops for every module
  object and every realm: the index grows at each step that does not throw.\<close>

theorem loadEndpoints_loop_terminates: "load_loop endpoints r \<noteq> None"
proof -
  have "\<exists>s. while_option (load_guard endpoints) (load_body endpoints) (Loading 0 r) = Some s"
    by (rule measure_while_option_Some [where P = "\<lambda>_. True"
          and f = "\<lambda>s. case s of Loading i r \<Rightarrow> length (object_keys endpoints) - i | _ \<Rightarrow> 0"])
       (auto simp: load_guard_def load_body_def split: load_state.splits option.splits sum.splits)
  then show ?thesis by (simp add: load_loop_def)
qed

text \<open>C16: when every key of the module is an identifier name that may be
  assigned (not a read-only global, not \<^verbatim>\<open>__proto__\<close>, and none of the
  globals \<^verbatim>\<open>Object\<close>, \<^verbatim>\<open>eval\<close>, \<^verbatim>\<open>global\<close>, \<^verbatim>\<open>console\<close> the
  loop itself reads), \<^verbatim>\<open>loadEndpoints\<close> returns normally, every property of the module
  is a global of the same name afterwards (other globals kept), and one line is
  logged.\<close>

theorem loadEndpoints_installs:
  assumes "list_all installable (map fst endpoints)"
  shows "loadEndpoints endpoints r =
    Some (None, r\<lparr>globals := globals r ++ map_of endpoints, console := console r @ [loaded_msg]\<rparr>)"
  using load_loop_complete [OF assms] by (simp add: loadEndpoints_def)

theorem loadEndpoints_installs_witness:
  "loadEndpoints [(''GUILD'', 1::nat), (''USER_GUILDS'', 2)] \<lparr>globals = Map.empty, console = []\<rparr> =
   Some (None, \<lparr>globals = [''USER_GUILDS'' \<mapsto> 2, ''GUILD'' \<mapsto> 1], console = [loaded_msg]\<rparr>)"
  by (subst loadEndpoints_installs)
     (simp_all add: installable_def ident_name_def ident_start_def ident_part_def readonly_global_def loop_global_def)

text \<open>C17 (error): a key of identifier characters that is not an identifier
  name (empty, or starting with a digit) makes the generated source text a
  \<open>SyntaxError\<close>: when the keys enumerated before it may be assigned (as in
  C16), \<^verbatim>\<open>loadEndpoints\<close> throws with those keys installed, and logs
  nothing.\<close>

theorem loadEndpoints_syntax_error:
  assumes "i < length (object_keys endpoints)"
    and "list_all installable (take i (object_keys endpoints))"
    and "\<not> ident_name (object_keys endpoints ! i)"
    and "list_all ident_part (object_keys endpoints ! i)"
  shows "loadEndpoints endpoints r = Some (Some SyntaxError, r\<lparr>globals := installed endpoints i (globals r)\<rparr>)"
  using assms by (intro load_loop_stops_at) (simp_all add: eval_install_def)

theorem loadEndpoints_syntax_error_witness:
  "loadEndpoints [(''GUILD'', 1::nat), (''2fa'', 2), (''USER_GUILDS'', 3)] \<lparr>globals = Map.empty, console = []\<rparr> =
   Some (Some SyntaxError, \<lparr>globals = [''GUILD'' \<mapsto> 1], console = []\<rparr>)"
  using loadEndpoints_syntax_error [of 1 "[(''GUILD'', 1::nat), (''2fa'', 2), (''USER_GUILDS'', 3)]"
      "\<lparr>globals = Map.empty, console = []\<rparr>"]
  by (simp add: object_keys_def object_entries_def is_array_index_def is_digit_def installable_def
      ident_name_def ident_start_def ident_part_def readonly_global_def loop_global_def installed_def)

text \<open>C18 (ordering, error): \<^verbatim>\<open>Object.keys\<close> lists array-index keys first,
  so a module with a key such as \<^verbatim>\<open>"7"\<close> makes \<^verbatim>\<open>loadEndpoints\<close> throw a
  \<open>SyntaxError\<close> at its first step, before any endpoint is installed, wherever
  that key was defined in the module.\<close>

theorem loadEndpoints_index_key_first:
  assumes "k \<in> set (map fst endpoints)" and "is_array_index k"
  shows "loadEndpoints endpoints r = Some (Some SyntaxError, r)"
  using load_loop_index_key [OF assms] by (simp add: loadEndpoints_def)

theorem loadEndpoints_index_key_first_witness:
  "loadEndpoints [(''GUILD'', 1::nat), (''7'', 2)] \<lparr>globals = Map.empty, console = []\<rparr> =
   Some (Some SyntaxError, \<lparr>globals = Map.empty, console = []\<rparr>)"
  by (rule loadEndpoints_index_key_first [of "''7''"])
     (simp_all add: is_array_index_def is_digit_def digits_val_def)

end
