(* ===== verification/ModuleLoad.thy ===== *)
theory ModuleLoad
  imports LoadEndpoints
begin

text \<open>
  Loading \<^verbatim>\<open>src/index.js\<close> as a CommonJS module. Its top-level code (lines
  18-232) is a strict-mode script. It requires \<^verbatim>\<open>discord-oauth2\<close>, the
  \<^verbatim>\<open>RequestHandler\<close> and \<^verbatim>\<open>./discordEndpoints.js\<close> (lines 19-21),
  declares \<^verbatim>\<open>loadEndpoints\<close> and calls it (line 32), declares the class
  \<^verbatim>\<open>Discord\<close>, and finally sets \<^verbatim>\<open>module.exports = {OAuth, Discord}\<close>
  (lines 230-232). An exception thrown by \<^verbatim>\<open>loadEndpoints\<close> ends the script
  before the export, and \<^verbatim>\<open>require\<close> throws it.

  \<^verbatim>\<open>require\<close> caches a module after a successful load: a later
  \<^verbatim>\<open>require\<close> returns the cached exports and does not run the script again.
  A load that throws is removed from the cache (Node's \<^verbatim>\<open>Module._load\<close>), so
  the next \<^verbatim>\<open>require\<close> runs the script again. The value of
  \<^verbatim>\<open>require("discord-oauth2")\<close> is a parameter \<open>'o\<close>. The endpoint
  module is the object \<open>endpoints\<close>, which the inner
  \<^verbatim>\<open>require\<close> of line 25 returns again from the cache.
\<close>

text \<open>The object of lines 230-232.\<close>

record 'o index_exports =
  OAuth :: 'o
  Discord :: "discord_opts \<Rightarrow> discord"

text \<open>The realm and the require cache entry of \<^verbatim>\<open>index.js\<close>.\<close>

record ('o, 'v) node_state =
  node_realm :: "'v realm"
  index_cache :: "'o index_exports option"

definition index_exports_of :: "'o \<Rightarrow> 'o index_exports" where
  "index_exports_of oauth = \<lparr>OAuth = oauth, Discord = Discord_new\<rparr>"

text \<open>One run of the script: the exports, or the exception of line 32.\<close>

definition run_index ::
  "'o \<Rightarrow> (string \<times> 'v) list \<Rightarrow> 'v realm \<Rightarrow> ((js_error + 'o index_exports) \<times> 'v realm) option" where
  "run_index oauth endpoints r =
     (case loadEndpoints endpoints r of
        None \<Rightarrow> None
      | Some (Some e, r') \<Rightarrow> Some (Inl e, r')
      | Some (None, r') \<Rightarrow> Some (Inr (index_exports_of oauth), r'))"

definition require_index ::
  "'o \<Rightarrow> (string \<times> 'v) list \<Rightarrow> ('o, 'v) node_state \<Rightarrow>
   ((js_error + 'o index_exports) \<times> ('o, 'v) node_state) option" where
  "require_index oauth endpoints st =
     (case index_cache st of
        Some ex \<Rightarrow> Some (Inr ex, st)
      | None \<Rightarrow>
          (case run_index oauth endpoints (node_realm st) of
             None \<Rightarrow> None
           | Some (Inl e, r') \<Rightarrow> Some (Inl e, st\<lparr>node_realm := r'\<rparr>)
           | Some (Inr ex, r') \<Rightarrow> Some (Inr ex, st\<lparr>node_realm := r', index_cache := Some ex\<rparr>)))"

subsection \<open>Properties of loading the module\<close>

text \<open>C23: when every key of the endpoint module is an identifier name that
  may be assigned (as in C16: the globals the loop reads excluded), the first \<^verbatim>\<open>require\<close> of \<^verbatim>\<open>index.js\<close> installs the endpoints,
  logs \<^verbatim>\<open>Discord endpoints loaded.\<close> once and exports the OAuth client and
  the class \<^verbatim>\<open>Discord\<close>, whose constructor is \<open>Discord_new\<close>. Every later
  \<^verbatim>\<open>require\<close> returns the same exports and changes nothing: the globals are
  installed and the line is logged once per process.\<close>

theorem require_index_once:
  assumes "index_cache st = None" and "list_all installable (map fst endpoints)"
  shows "\<exists>st1. require_index oauth endpoints st = Some (Inr (index_exports_of oauth), st1) \<and>
    Discord (index_exports_of oauth) = Discord_new \<and>
    globals (node_realm st1) = globals (node_realm st) ++ map_of endpoints \<and>
    console (node_realm st1) = console (node_realm st) @ [loaded_msg] \<and>
    require_index oauth endpoints st1 = Some (Inr (index_exports_of oauth), st1)"
  using assms load_loop_complete [OF assms(2), of "node_realm st"]
  by (simp add: require_index_def run_index_def loadEndpoints_def index_exports_of_def)

theorem require_index_once_witness:
  "\<exists>st1. require_index (0::nat) [(''GUILD'', 1::nat)]
      \<lparr>node_realm = \<lparr>globals = Map.empty, console = []\<rparr>, index_cache = None\<rparr> =
      Some (Inr (index_exports_of 0), st1) \<and>
    Discord (index_exports_of (0::nat)) = Discord_new \<and>
    globals (node_realm st1) = Map.empty ++ map_of [(''GUILD'', 1::nat)] \<and>
    console (node_realm st1) = [] @ [loaded_msg] \<and>
    require_index 0 [(''GUILD'', 1::nat)] st1 = Some (Inr (index_exports_of 0), st1)"
  using require_index_once [where st = "\<lparr>node_realm = \<lparr>globals = Map.empty, console = []\<rparr>, index_cache = None\<rparr>"
      and endpoints = "[(''GUILD'', 1::nat)]" and oauth = "0::nat"]
  by (simp add: installable_def ident_name_def ident_start_def ident_part_def readonly_global_def loop_global_def)

text \<open>C24 (error): when the endpoint module has an array-index key,
  \<^verbatim>\<open>require\<close> of \<^verbatim>\<open>index.js\<close> throws a \<open>SyntaxError\<close>, exports nothing,
  logs nothing and leaves the process state as it was, so every later
  \<^verbatim>\<open>require\<close> fails in the same way.\<close>

theorem require_index_index_key:
  assumes "index_cache st = None" and "k \<in> set (map fst endpoints)" and "is_array_index k"
  shows "require_index oauth endpoints st = Some (Inl SyntaxError, st)"
  using assms load_loop_index_key [OF assms(2,3), of "node_realm st"]
  by (simp add: require_index_def run_index_def loadEndpoints_def)

theorem require_index_index_key_witness:
  "require_index (0::nat) [(''GUILD'', 1::nat), (''7'', 2)]
     \<lparr>node_realm = \<lparr>globals = Map.empty, console = []\<rparr>, index_cache = None\<rparr> =
   Some (Inl SyntaxError, \<lparr>node_realm = \<lparr>globals = Map.empty, console = []\<rparr>, index_cache = None\<rparr>)"
  by (rule require_index_index_key [of _ "''7''"])
     (simp_all add: is_array_index_def is_digit_def digits_val_def)

end
