(* ===== verification/Spec2Isabelle.thy ===== *)
theory Spec2Isabelle
  imports AsyncCache ArrayProto UriEncode ModuleLoad
begin

text \<open>
  Verification development for \<^verbatim>\<open>src/index.js\<close> of discord-webhelper, a
  facade over the REST client of \<^verbatim>\<open>discord-oauth2\<close>. The class
  \<^verbatim>\<open>Discord\<close> (lines 38-228) extends that client (\<^verbatim>\<open>RequestHandler\<close>),
  configures it in its constructor, sends bot-authenticated \<^verbatim>\<open>GET\<close> requests
  for guild members, member roles, guilds and the bot's guild list through the
  inherited \<^verbatim>\<open>request\<close>, keeps a guild cache (\<^verbatim>\<open>GuildCache\<close>,
  \<^verbatim>\<open>GuildCacheTimeout\<close>) filled by \<^verbatim>\<open>getGuild\<close> and \<^verbatim>\<open>getAllGuilds\<close>,
  and has a URL-query encoder \<^verbatim>\<open>_encode\<close>.

  \<^bold>\<open>Theories.\<close>
  \<^item> \<open>Prelude\<close>: the JavaScript values the code handles (\<open>jv\<close>), the
    exceptions (\<open>js_error\<close>), truthiness and \<open>||\<close>, \<open>String(v)\<close>
    (\<open>js_to_string\<close>), property reads that throw on \<open>null\<close>/\<open>undefined\<close>
    (\<open>get_prop\<close>), \<open>for ... of\<close> (\<open>js_iterate\<close>), shared list and map
    lemmas, and the collection \<open>js_simps\<close>.
  \<^item> \<open>Endpoints\<close>: the four path templates of \<^verbatim>\<open>discordEndpoints.js\<close>,
    which is not under \<^verbatim>\<open>src/\<close> and is modelled from the spec.
    \<open>route_path_injective\<close> shows that different routes give different paths.
  \<^item> \<open>RestClient\<close>: the interface of the inherited \<^verbatim>\<open>request(method, path,
    body, options)\<close>, as a record \<open>rest_request\<close>. A REST client is any function
    from requests to \<open>js_error + jv\<close>: it is a parameter of every theorem, so
    the theorems hold for every answer and every error the library can give.
  \<^item> \<open>Facade\<close>: the constructor (lines 51-62) as \<open>Discord_new\<close> with the
    record \<open>discord\<close> of the instance state, and the pass-through methods
    \<^verbatim>\<open>getGuildMember\<close>, \<^verbatim>\<open>getGuildMemberRole\<close>, \<^verbatim>\<open>_getGuild\<close>
    (\<open>fetchGuild\<close>) and the request of \<^verbatim>\<open>getAllGuilds\<close>, each as the
    request it sends (\<open>*_req\<close>) and the answer it returns.
  \<^item> \<open>GuildCache\<close>: \<^verbatim>\<open>getGuild\<close> (lines 173-195) and \<^verbatim>\<open>getAllGuilds\<close>
    (lines 202-226) run sequentially. Each is split at its \<^verbatim>\<open>await\<close> into
    the call part and a \<open>_resume\<close> part. The two \<^verbatim>\<open>Date.now()\<close> reads of
    \<^verbatim>\<open>getGuild\<close> are the parameters \<open>t0\<close> (before the \<^verbatim>\<open>await\<close>)
    and \<open>t1\<close> (after it).
  \<^item> \<open>AsyncCache\<close>: the same methods as they run under the event loop. A
    \<open>world\<close> holds the facade, the clock, the calls waiting at their
    \<^verbatim>\<open>await\<close>, the requests issued, the answers given and the results.
    \<open>world_step\<close> performs one event: a clock tick, a call, or the settlement
    of a request. \<open>reach\<close> is the set of worlds reachable from a freshly
    constructed facade.
  \<^item> \<open>UriEncode\<close>: \<^verbatim>\<open>_encode\<close> (lines 64-75) with the runtime functions it
    calls, \<^verbatim>\<open>encodeURIComponent\<close> and \<^verbatim>\<open>Object.entries\<close>, plus a decoder
    that is the specification side of the round trips. \<open>JsObject\<close> holds
    \<^verbatim>\<open>Object.entries\<close> and \<^verbatim>\<open>Object.keys\<close> (array-index keys first).
  \<^item> \<open>LoadEndpoints\<close>: \<^verbatim>\<open>loadEndpoints\<close> (lines 24-32), the index loop
    over \<^verbatim>\<open>Object.keys\<close> of the endpoint module as a \<open>while_option\<close> over
    the index and the realm (global object and console). Each step evaluates
    \<^verbatim>\<open>global.${k} = endpoints['${k}']\<close>. A key naming one of the globals
    the loop itself reads (\<open>loop_global\<close>) is outside the model.
  \<^item> \<open>ArrayStore\<close>: \<^verbatim>\<open>GuildCache = []\<close> as the Array it is. The state
    is the facade and the array's \<^verbatim>\<open>length\<close>. Reads see own entries, the
    length and the names inherited from \<^verbatim>\<open>Array.prototype\<close> and
    \<^verbatim>\<open>Object.prototype\<close>. Writes throw on \<^verbatim>\<open>length\<close> and raise the length
    on array-index keys. \<open>getGuild_arr\<close> and \<open>getAllGuilds_arr\<close> are the
    cache methods on it.
  \<^item> \<open>ArrayProto\<close>: the same Array together with its prototype, for the
    key \<^verbatim>\<open>__proto__\<close>. Writing that key runs the setter
    \<^verbatim>\<open>Object.prototype.__proto__\<close>, which makes the entry object the
    prototype (\<open>proto_set\<close>). Reads see the inherited fields
    \<^verbatim>\<open>guild\<close> and \<^verbatim>\<open>lastUpdated\<close> (\<open>proto_get\<close>). The staleness test
    on an inherited value converts its \<^verbatim>\<open>lastUpdated\<close> field with
    \<open>ToNumber\<close> (\<open>js_number_of\<close>, \<open>cached_value\<close>). \<open>proto_abs\<close> files
    the prototype entry under \<^verbatim>\<open>__proto__\<close> in the map model.
  \<^item> \<open>ModuleLoad\<close>: the top level of \<^verbatim>\<open>index.js\<close> (lines 18-32 and
    230-232) as one run of the script (\<open>run_index\<close>: \<^verbatim>\<open>loadEndpoints()\<close>,
    then \<^verbatim>\<open>module.exports = {OAuth, Discord}\<close>). \<open>require_index\<close> adds
    Node's module cache, which keeps a successful load and drops a failed
    one.

  \<^bold>\<open>Results.\<close>
  \<^item> Sequential cache (C1-C8, \<open>GuildCache\<close>): every branch of both methods.
    A stale entry is served without a request, while a fresh or missing entry
    is refetched and stamped after the \<^verbatim>\<open>await\<close>. A failed fetch changes
    nothing. The guild list overwrites one entry per guild, a \<open>null\<close>
    element stops the loop part way, and a string answer is filed under
    \<^verbatim>\<open>undefined\<close>. Under a server with one fixed record per guild, the
    cache is transparent (refinement, C5).
  \<^item> Interleaving (C9-C12 and C22, \<open>AsyncCache\<close>): an invariant of all
    reachable worlds, proved by rule induction. Every cached value was
    delivered by the client, is stamped no later than the clock, and the
    timeout stays 10000. The last settlement wins. Every waiting call completes
    once its request settles, with the facade and result computed by its
    method's code after the \<^verbatim>\<open>await\<close>. A stale entry is never refreshed by
    \<^verbatim>\<open>getGuild\<close>, and no event removes an entry (\<open>reach_cache_size\<close>
    bounds the cache by the values delivered).
  \<^item> Encoder (C13 and C25, \<open>UriEncode\<close>): \<^verbatim>\<open>_encode\<close> round-trips
    through the decoder for the truthy entries in \<^verbatim>\<open>Object.entries\<close>
    order, and equals the plain join of its encoded \<open>key=value\<close> segments.
  \<^item> Facade (C14): the route, method, authentication and content type each
    request method sends.
  \<^item> Endpoint injection (C15-C18, \<open>LoadEndpoints\<close>): the loop terminates
    (the measure is the number of keys left). When every key is an
    assignable identifier name it installs the module as globals and logs
    once. A digit-first key throws a \<open>SyntaxError\<close> part way, and an
    array-index key throws before anything is installed, because
    \<^verbatim>\<open>Object.keys\<close> lists it first.
  \<^item> Array store (C19-C21, \<open>ArrayStore\<close>): for every key but
    \<^verbatim>\<open>length\<close> and \<^verbatim>\<open>__proto__\<close>, both methods refine the map model,
    inherited names included. The key \<^verbatim>\<open>length\<close> always fetches and then
    throws a \<open>RangeError\<close>.
  \<^item> Module load (C23-C24, \<open>ModuleLoad\<close>): the first \<^verbatim>\<open>require\<close>
    installs the endpoints, logs once and exports \<^verbatim>\<open>Discord\<close>, and later
    ones change nothing. A module with an array-index key makes every
    \<^verbatim>\<open>require\<close> throw.
  \<^item> Prototype (C26-C28, \<open>ArrayProto\<close>): with the prototype modelled, both
    methods refine the map model for \<^verbatim>\<open>__proto__\<close> too, and the invariant
    that no own property is named \<^verbatim>\<open>__proto__\<close> holds after both. The
    single exception is the key \<^verbatim>\<open>guild\<close> once an entry object is the
    prototype: the code may then serve a field of the stored guild value
    without a request (C28).

  \<^bold>\<open>Time.\<close> Timestamps are integers (milliseconds). The clock only moves by
  \<open>Tick\<close> events. Synchronous code between two \<^verbatim>\<open>await\<close>s reads one clock
  value, as it does in the program: the loop of \<^verbatim>\<open>getAllGuilds\<close> stamps
  every entry with the same time. No fuel is used. Every function is total,
  \<open>run\<close> is structural on the event list, and the one loop kept as a loop
  (\<^verbatim>\<open>loadEndpoints\<close>) is proved to stop.

  \<^bold>\<open>Not modelled.\<close>
  \<^item> The internals of \<^verbatim>\<open>RequestHandler\<close>: rate limits, retries,
    transport and its timeout. Only its interface is modelled.
  \<^item> The OAuth2 client of \<^verbatim>\<open>discord-oauth2\<close>: \<open>ModuleLoad\<close> exports
    it as an opaque parameter, since \<^verbatim>\<open>index.js\<close> only re-exports it.
  \<^item> \<open>StringToNumber\<close> in the staleness test of an inherited value whose
    \<^verbatim>\<open>lastUpdated\<close> field is a string or an array: the result may be a
    fraction, beyond the number model, so \<open>cached_value\<close> is \<open>None\<close>
    there. It is reached only through the key \<^verbatim>\<open>guild\<close> after a guild
    with id \<^verbatim>\<open>__proto__\<close> was cached. The asynchronous model of
    \<open>AsyncCache\<close> uses the map view of the cache. \<open>ArrayStore\<close> and
    \<open>ArrayProto\<close> show that view exact for all keys but \<^verbatim>\<open>length\<close> and
    that one case of \<^verbatim>\<open>guild\<close>.
  \<^item> In \<^verbatim>\<open>loadEndpoints\<close>, the effect of \<^verbatim>\<open>eval\<close> on keys with characters
    other than ASCII identifier characters (such a key could make the generated
    text run a member chain or a call), on \<^verbatim>\<open>__proto__\<close>, and on the
    globals \<^verbatim>\<open>Object\<close>, \<^verbatim>\<open>eval\<close>, \<^verbatim>\<open>global\<close> and \<^verbatim>\<open>console\<close>
    that the loop itself reads: what the loop does after replacing one of them
    depends on the endpoint value, which the model keeps abstract. These steps
    give the state \<open>Unmodelled\<close>. Globals are data properties: accessor globals of the host
    are not modelled.
  \<^item> Numbers are modelled as integers and \<open>NaN\<close>, with no fractions. Strings
    are restricted to code points below 256 in \<^verbatim>\<open>encodeURIComponent\<close>.
\<close>

end
